theory Spec2Isabelle
  imports Complex_Main "HOL-Library.Word"
begin

unbundle bit_operations_syntax

section \<open>NumPy floating-point values\<close>

text \<open>
  The histograms and weights of \<^verbatim>\<open>ColorHistObjectClassifier.py\<close> are NumPy floating-point
  arrays. NumPy never raises on a floating-point division: \<^verbatim>\<open>0.0 / 0.0\<close> is \<^verbatim>\<open>nan\<close>,
  \<^verbatim>\<open>x / 0.0\<close> is an infinity, and \<^verbatim>\<open>nan\<close> is absorbing. Several properties of the
  classifier depend on exactly this, so a value is a finite real number or one of the three
  IEEE special values. Finite arithmetic is exact: rounding, overflow and the sign of zero are
  not modelled.
\<close>

datatype fl = Fin real | PInf | NInf | NaN

fun fl_neg :: "fl \<Rightarrow> fl" where
  "fl_neg (Fin a) = Fin (- a)"
| "fl_neg PInf = NInf"
| "fl_neg NInf = PInf"
| "fl_neg NaN = NaN"

fun fl_add :: "fl \<Rightarrow> fl \<Rightarrow> fl" where
  "fl_add (Fin a) (Fin b) = Fin (a + b)"
| "fl_add NaN _ = NaN"
| "fl_add _ NaN = NaN"
| "fl_add PInf NInf = NaN"
| "fl_add NInf PInf = NaN"
| "fl_add PInf _ = PInf"
| "fl_add _ PInf = PInf"
| "fl_add NInf _ = NInf"
| "fl_add _ NInf = NInf"

definition fl_sub :: "fl \<Rightarrow> fl \<Rightarrow> fl" where
  "fl_sub a b = fl_add a (fl_neg b)"

definition fl_signed_inf :: "bool \<Rightarrow> fl" where
  "fl_signed_inf positive = (if positive then PInf else NInf)"

fun fl_mul :: "fl \<Rightarrow> fl \<Rightarrow> fl" where
  "fl_mul (Fin a) (Fin b) = Fin (a * b)"
| "fl_mul NaN _ = NaN"
| "fl_mul _ NaN = NaN"
| "fl_mul (Fin a) PInf = (if a = 0 then NaN else fl_signed_inf (0 < a))"
| "fl_mul (Fin a) NInf = (if a = 0 then NaN else fl_signed_inf (a < 0))"
| "fl_mul PInf (Fin b) = (if b = 0 then NaN else fl_signed_inf (0 < b))"
| "fl_mul NInf (Fin b) = (if b = 0 then NaN else fl_signed_inf (b < 0))"
| "fl_mul PInf PInf = PInf"
| "fl_mul NInf NInf = PInf"
| "fl_mul PInf NInf = NInf"
| "fl_mul NInf PInf = NInf"

fun fl_div :: "fl \<Rightarrow> fl \<Rightarrow> fl" where
  "fl_div (Fin a) (Fin b) =
     (if b \<noteq> 0 then Fin (a / b) else if a = 0 then NaN else fl_signed_inf (0 < a))"
| "fl_div NaN _ = NaN"
| "fl_div _ NaN = NaN"
| "fl_div (Fin a) PInf = Fin 0"
| "fl_div (Fin a) NInf = Fin 0"
| "fl_div PInf (Fin b) = fl_signed_inf (0 \<le> b)"
| "fl_div NInf (Fin b) = fl_signed_inf (b < 0)"
| "fl_div PInf PInf = NaN"
| "fl_div PInf NInf = NaN"
| "fl_div NInf PInf = NaN"
| "fl_div NInf NInf = NaN"

text \<open>\<^verbatim>\<open>np.sqrt\<close>: the square root of a negative number is \<^verbatim>\<open>nan\<close>.\<close>

fun fl_sqrt :: "fl \<Rightarrow> fl" where
  "fl_sqrt (Fin a) = (if 0 \<le> a then Fin (sqrt a) else NaN)"
| "fl_sqrt PInf = PInf"
| "fl_sqrt NInf = NaN"
| "fl_sqrt NaN = NaN"

text \<open>\<^verbatim>\<open>np.power(x, 2)\<close>.\<close>

fun fl_pow2 :: "fl \<Rightarrow> fl" where
  "fl_pow2 (Fin a) = Fin (a\<^sup>2)"
| "fl_pow2 PInf = PInf"
| "fl_pow2 NInf = PInf"
| "fl_pow2 NaN = NaN"

fun fl_exp :: "fl \<Rightarrow> fl" where
  "fl_exp (Fin a) = Fin (exp a)"
| "fl_exp PInf = PInf"
| "fl_exp NInf = Fin 0"
| "fl_exp NaN = NaN"

text \<open>\<^verbatim>\<open>np.sum\<close> of a one-dimensional array; the sum of the empty array is \<^verbatim>\<open>0.0\<close>.\<close>

fun fl_sum :: "fl list \<Rightarrow> fl" where
  "fl_sum [] = Fin 0"
| "fl_sum (x # xs) = fl_add x (fl_sum xs)"

text \<open>
  NumPy broadcasting of a binary operation over two one-dimensional arrays: equal lengths
  combine elementwise, a length-one array is stretched to the other length, anything else
  raises \<^verbatim>\<open>ValueError\<close>. \<open>np_broadcast_shape\<close> is the check and the resulting length,
  \<open>np_broadcast\<close> the operation once the check has passed.
\<close>

datatype error = IndexError | ValueError | CvError

definition np_broadcast_shape :: "nat \<Rightarrow> nat \<Rightarrow> error + nat" where
  "np_broadcast_shape m n =
     (if m = n then Inr m else if m = 1 then Inr n else if n = 1 then Inr m
      else Inl ValueError)"

definition np_stretch :: "nat \<Rightarrow> fl list \<Rightarrow> fl list" where
  "np_stretch n xs = (if length xs = n then xs else replicate n (hd xs))"

definition np_broadcast :: "(fl \<Rightarrow> fl \<Rightarrow> fl) \<Rightarrow> nat \<Rightarrow> fl list \<Rightarrow> fl list \<Rightarrow> fl list" where
  "np_broadcast f n xs ys = map2 f (np_stretch n xs) (np_stretch n ys)"

section \<open>Images, regions and slicing\<close>

text \<open>
  An image is a NumPy array of shape \<open>(height, width, channels)\<close> with unsigned 8-bit
  entries: its shape and an index function. A two-dimensional (grayscale) array is an image
  with one channel.
\<close>

record image =
  img_h :: nat
  img_w :: nat
  img_c :: nat
  img_px :: "nat \<Rightarrow> nat \<Rightarrow> nat \<Rightarrow> 8 word"

type_synonym plane = "nat \<Rightarrow> nat \<Rightarrow> 8 word"

text \<open>
  Python's \<^verbatim>\<open>a[start:stop]\<close> on an axis of length \<open>n\<close>: a negative bound counts from
  the end, every bound is clipped to \<open>0..n\<close>, and the slice is empty when the stop is not
  after the start. The result is the first index and the number of indices kept.
\<close>

definition py_slice :: "nat \<Rightarrow> int \<Rightarrow> int \<Rightarrow> nat \<times> nat" where
  "py_slice n start stop =
     (let clip = (\<lambda>i. if i < 0 then max 0 (i + int n) else min i (int n));
          s = clip start; e = clip stop
      in (nat s, nat (e - s)))"

text \<open>\<^verbatim>\<open>img[top:bottom, left:right]\<close>: a view of the rows and columns in the two slices.\<close>

definition np_slice2d :: "image \<Rightarrow> int \<Rightarrow> int \<Rightarrow> int \<Rightarrow> int \<Rightarrow> image" where
  "np_slice2d img t b l r =
     (let rs = py_slice (img_h img) t b; cs = py_slice (img_w img) l r
      in \<lparr>img_h = snd rs, img_w = snd cs, img_c = img_c img,
          img_px = (\<lambda>i j k. img_px img (fst rs + i) (fst cs + j) k)\<rparr>)"

text \<open>Python's \<^verbatim>\<open>int(x)\<close> on a float truncates towards zero.\<close>

definition py_int :: "real \<Rightarrow> int" where
  "py_int x = (if 0 \<le> x then \<lfloor>x\<rfloor> else \<lceil>x\<rceil>)"

text \<open>
  Modelled from the spec: the bounding-box class of module \<^verbatim>\<open>Utils\<close> is not part of the
  source file. The spec describes a region as an axis-aligned rectangle with accessors for
  its edges and its centre, and a translation that re-centres it on a point.
\<close>

record bbox =
  bb_left :: real
  bb_top :: real
  bb_right :: real
  bb_bottom :: real

definition centered_on :: "bbox \<Rightarrow> real \<Rightarrow> real \<Rightarrow> bbox" where
  \<comment> \<open>Modelled from the spec: the same width and height, re-centred on \<open>(x, y)\<close>.\<close>
  "centered_on b x y =
     (let w = bb_right b - bb_left b; h = bb_bottom b - bb_top b
      in \<lparr>bb_left = x - w / 2, bb_top = y - h / 2,
          bb_right = x + w / 2, bb_bottom = y + h / 2\<rparr>)"

definition centroid :: "bbox \<Rightarrow> (real \<times> real) list" where
  \<comment> \<open>Modelled from the spec: the centre of the region, as a batch of one particle state.\<close>
  "centroid b = [((bb_left b + bb_right b) / 2, (bb_top b + bb_bottom b) / 2)]"

section \<open>The OpenCV primitives used by the histogram builder\<close>

text \<open>
  \<^verbatim>\<open>cv2.split\<close> returns one plane per channel, and nothing at all for an empty array.
\<close>

definition cv2_split :: "image \<Rightarrow> plane list" where
  "cv2_split img =
     (if img_h img = 0 \<or> img_w img = 0 then []
      else map (\<lambda>k. (\<lambda>i j. img_px img i j k)) [0..<img_c img])"

text \<open>\<^verbatim>\<open>cv2.threshold(src, thresh, maxval, cv2.THRESH_BINARY)[1]\<close>.\<close>

definition cv2_threshold_binary :: "plane \<Rightarrow> 8 word \<Rightarrow> 8 word \<Rightarrow> plane" where
  "cv2_threshold_binary src thresh maxval = (\<lambda>i j. if thresh < src i j then maxval else 0)"

definition cv2_bitwise_and :: "plane \<Rightarrow> plane \<Rightarrow> plane" where
  "cv2_bitwise_and a b = (\<lambda>i j. a i j AND b i j)"

definition cv2_bitwise_xor :: "plane \<Rightarrow> plane \<Rightarrow> plane" where
  "cv2_bitwise_xor a b = (\<lambda>i j. a i j XOR b i j)"

text \<open>
  \<^verbatim>\<open>cv2.calcHist([image], channels, mask, histSize, ranges)\<close> with uniform bins. A value
  \<open>v\<close> of a channel with range \<open>[lo, hi)\<close> and \<open>sz\<close> bins falls into bin
  \<open>\<lfloor>(v - lo) \<cdot> sz / (hi - lo)\<rfloor>\<close> and is dropped when that is not a bin. A pixel is
  counted when the mask is non-zero there and every channel falls into a bin; the bins of a
  multi-dimensional histogram are numbered row-major.
\<close>

definition bin_index :: "real \<times> real \<Rightarrow> int \<Rightarrow> 8 word \<Rightarrow> nat option" where
  "bin_index rg sz v =
     (let idx = \<lfloor>(real (unat v) - fst rg) * (real_of_int sz / (snd rg - fst rg))\<rfloor>
      in if 0 \<le> idx \<and> idx < sz then Some (nat idx) else None)"

fun flat_bin :: "(real \<times> real) list \<Rightarrow> int list \<Rightarrow> 8 word list \<Rightarrow> nat option" where
  "flat_bin (rg # rgs) (sz # szs) (v # vs) =
     (case bin_index rg sz v of
        None \<Rightarrow> None
      | Some b \<Rightarrow>
          (case flat_bin rgs szs vs of
             None \<Rightarrow> None
           | Some r \<Rightarrow> Some (b * nat (prod_list szs) + r)))"
| "flat_bin _ _ _ = Some 0"

fun range_pairs :: "real list \<Rightarrow> (real \<times> real) list" where
  "range_pairs (lo # hi # rest) = (lo, hi) # range_pairs rest"
| "range_pairs _ = []"

definition hist_counts ::
  "image \<Rightarrow> nat list \<Rightarrow> plane \<Rightarrow> int list \<Rightarrow> (real \<times> real) list \<Rightarrow> nat list" where
  "hist_counts img chans msk histSize rgs =
     map (\<lambda>b. length (filter
                 (\<lambda>(i, j). msk i j \<noteq> 0 \<and>
                    flat_bin rgs histSize (map (img_px img i j) chans) = Some b)
                 (List.product [0..<img_h img] [0..<img_w img])))
       [0..<nat (prod_list histSize)]"

text \<open>
  The call fails (an OpenCV assertion, \<^verbatim>\<open>cv2.error\<close> in Python) when the number of
  channels differs from the number of dimensions, when a channel index is not a channel of the
  image, when the ranges are neither absent nor two per dimension, when a range is empty or a
  bin count is not positive. Absent ranges mean \<open>[0, 256)\<close> for 8-bit images. The result is
  the array of counts, as floats.
\<close>

definition cv2_calcHist ::
  "image \<Rightarrow> int list \<Rightarrow> plane \<Rightarrow> int list \<Rightarrow> real list \<Rightarrow> error + fl list" where
  "cv2_calcHist img channels msk histSize ranges =
     (let dims = length histSize;
          rgs = (if ranges = [] then replicate dims (0, 256) else range_pairs ranges)
      in if dims = 0 then Inl CvError
         else if length channels \<noteq> dims then Inl CvError
         else if ranges \<noteq> [] \<and> length ranges \<noteq> 2 * dims then Inl CvError
         else if \<not> list_all (\<lambda>c. 0 \<le> c \<and> c < int (img_c img)) channels then Inl CvError
         else if \<not> list_all (\<lambda>rg. fst rg < snd rg) rgs then Inl CvError
         else if \<not> list_all (\<lambda>sz. 0 < sz) histSize then Inl CvError
         else Inr (map (\<lambda>n. Fin (real n)) (hist_counts img (map nat channels) msk histSize rgs)))"

section \<open>The classifier\<close>

text \<open>
  \<^verbatim>\<open>compute_object_histogram\<close>. The parameter \<^verbatim>\<open>mask\<close> (here \<open>msk\<close>) is accepted
  and never read: both histograms are taken under the masks derived from the crop. The
  bounds of the crop are \<^verbatim>\<open>int(objectBB.top())\<close> and so on; with no pixel counted the
  division in line 91 is \<^verbatim>\<open>0.0 / 0.0\<close> in every bin.
\<close>

definition compute_object_histogram ::
  "image \<Rightarrow> bbox \<Rightarrow> int list \<Rightarrow> image option \<Rightarrow> int list \<Rightarrow> real list \<Rightarrow> error + fl list" where
  "compute_object_histogram img objectBB channels msk num_bins intervals =
     (if length num_bins < 3 then Inl IndexError
      else if num_bins ! 0 * num_bins ! 1 + num_bins ! 2 < 0 then Inl ValueError
      else
        let obj_hist = replicate (nat (num_bins ! 0 * num_bins ! 1 + num_bins ! 2)) (Fin 0);
            obj_image = np_slice2d img (py_int (bb_top objectBB)) (py_int (bb_bottom objectBB))
                          (py_int (bb_left objectBB)) (py_int (bb_right objectBB));
            splitted_img = cv2_split obj_image
        in if length splitted_img = 3 then
             let maskH = cv2_threshold_binary (splitted_img ! 0) 25 255;
                 maskS = cv2_threshold_binary (splitted_img ! 1) 51 255;
                 maskHS = cv2_bitwise_and maskH maskS;
                 white_mask = (\<lambda>i j. 255);
                 maskV = cv2_bitwise_xor maskHS white_mask
             in case cv2_calcHist obj_image (take 2 channels) maskHS (take 2 num_bins)
                       (take 4 intervals) of
                  Inl e \<Rightarrow> Inl e
                | Inr hs_hist \<Rightarrow>
                    (case cv2_calcHist obj_image (take 1 (drop 2 channels)) maskV
                            (take 1 (drop 2 num_bins)) (drop 4 intervals) of
                       Inl e \<Rightarrow> Inl e
                     | Inr v_hist \<Rightarrow>
                         let obj_hist = hs_hist @ v_hist
                         in Inr (map (\<lambda>x. fl_div x (fl_sum obj_hist)) obj_hist))
           else Inr obj_hist)"

text \<open>
  The state of a classifier: \<^verbatim>\<open>self._bb\<close>, \<^verbatim>\<open>self._obj_img\<close>,
  \<^verbatim>\<open>self._color_hist_params\<close> (the list of the four histogram parameters) and
  \<^verbatim>\<open>self._color_hist\<close>, the reference histogram.
\<close>

record hist_params =
  hist_channels :: "int list"
  hist_mask :: "image option"
  hist_num_bins :: "int list"
  hist_intervals :: "real list"

record classifier =
  self_bb :: bbox
  self_obj_img :: image
  self_color_hist_params :: hist_params
  self_color_hist :: "fl list"

text \<open>\<^verbatim>\<open>__init__\<close>: the constructor either raises or yields the new object.\<close>

definition init ::
  "image \<Rightarrow> bbox \<Rightarrow> int list \<Rightarrow> image option \<Rightarrow> int list \<Rightarrow> real list \<Rightarrow> error + classifier" where
  "init hsv_img bb channels msk num_bins intervals =
     (case compute_object_histogram hsv_img bb channels msk num_bins intervals of
        Inl e \<Rightarrow> Inl e
      | Inr h \<Rightarrow>
          Inr \<lparr>self_bb = bb,
               self_obj_img = np_slice2d hsv_img (py_int (bb_top bb)) (py_int (bb_bottom bb))
                                (py_int (bb_left bb)) (py_int (bb_right bb)),
               self_color_hist_params =
                 \<lparr>hist_channels = channels, hist_mask = msk, hist_num_bins = num_bins,
                  hist_intervals = intervals\<rparr>,
               self_color_hist = h\<rparr>)"

text \<open>
  \<^verbatim>\<open>particle_weight\<close>, lines 108 to 113: the loop over the particle states. A particle
  state is its \<open>(x, y)\<close>. The first histogram that raises ends the loop.
\<close>

fun particle_hists ::
  "classifier \<Rightarrow> image \<Rightarrow> image option \<Rightarrow> (real \<times> real) list \<Rightarrow> error + fl list list" where
  "particle_hists self hsv_img msk [] = Inr []"
| "particle_hists self hsv_img msk (state # rest) =
     (let particleBB = centered_on (self_bb self) (fst state) (snd state)
      in case compute_object_histogram hsv_img particleBB
                (hist_channels (self_color_hist_params self)) msk
                (hist_num_bins (self_color_hist_params self))
                (hist_intervals (self_color_hist_params self)) of
           Inl e \<Rightarrow> Inl e
         | Inr particle_hist \<Rightarrow>
             (case particle_hists self hsv_img msk rest of
                Inl e \<Rightarrow> Inl e
              | Inr hs \<Rightarrow> Inr (particle_hist # hs)))"

text \<open>
  Lines 115 to 123, for one row of \<^verbatim>\<open>all_particle_hists\<close>: the reference histogram is
  divided by its sum, the particle's histogram by its own sum, with a sum equal to zero
  replaced by one, and the distance is taken between the square roots. \<open>n\<close> is the length
  after broadcasting.
\<close>

definition particle_dist :: "nat \<Rightarrow> fl list \<Rightarrow> fl list \<Rightarrow> fl" where
  "particle_dist n color_hist particle_hist =
     (let norm_color_hist = map (\<lambda>x. fl_div x (fl_sum color_hist)) color_hist;
          sum_hist = (if fl_sum particle_hist = Fin 0 then Fin 1 else fl_sum particle_hist);
          norm_particle_hist = map (\<lambda>x. fl_div x sum_hist) particle_hist
      in fl_mul (Fin (1 / sqrt 2))
           (fl_sqrt (fl_sum (map fl_pow2
              (np_broadcast fl_sub n (map fl_sqrt norm_color_hist)
                 (map fl_sqrt norm_particle_hist))))))"

text \<open>Lines 125 and 126: the Gaussian kernel with \<open>sigma = 0.1\<close>.\<close>

definition sigma :: real where
  "sigma = 1 / 10"

definition kernel_weight :: "fl \<Rightarrow> fl" where
  "kernel_weight d = fl_exp (fl_div (fl_neg (fl_pow2 d)) (Fin (2 * sigma\<^sup>2)))"

text \<open>Lines 128 to 132: the centre of the particle lies inside the image.\<close>

definition valid_mask :: "image \<Rightarrow> real \<times> real \<Rightarrow> bool" where
  "valid_mask hsv_img state =
     (let positive_x = (0 \<le> fst state); small_x = (fst state < real (img_w hsv_img));
          positive_y = (0 \<le> snd state); small_y = (snd state < real (img_h hsv_img))
      in positive_x \<and> small_x \<and> positive_y \<and> small_y)"

text \<open>
  The value returned by \<^verbatim>\<open>particle_weight\<close>: a column, one row \<open>[w]\<close> per particle.
  Multiplying by the Boolean array multiplies by \<open>1.0\<close> or \<open>0.0\<close>.
\<close>

definition all_weights ::
  "classifier \<Rightarrow> (real \<times> real) list \<Rightarrow> image \<Rightarrow> image option \<Rightarrow> error + fl list list" where
  "all_weights self particles hsv_img msk =
     (let num_bins = hist_num_bins (self_color_hist_params self)
      in if length num_bins < 3 then Inl IndexError
         else if num_bins ! 0 * num_bins ! 1 + num_bins ! 2 < 0 then Inl ValueError
         else
           case particle_hists self hsv_img msk particles of
             Inl e \<Rightarrow> Inl e
           | Inr all_particle_hists \<Rightarrow>
               (case np_broadcast_shape (length (self_color_hist self))
                       (nat (num_bins ! 0 * num_bins ! 1 + num_bins ! 2)) of
                  Inl e \<Rightarrow> Inl e
                | Inr n \<Rightarrow>
                    Inr (map2
                      (\<lambda>state particle_hist.
                         [fl_mul (kernel_weight (particle_dist n (self_color_hist self) particle_hist))
                            (Fin (if valid_mask hsv_img state then 1 else 0))])
                      particles all_particle_hists)))"

text \<open>
  The methods, with the object passed in and returned. Neither scoring method assigns to an
  attribute; \<^verbatim>\<open>update_object_histogram\<close> rebinds \<^verbatim>\<open>self._color_hist\<close>, unless the
  two arrays do not broadcast, in which case it raises before the assignment.
\<close>

definition particle_weight ::
  "classifier \<Rightarrow> (real \<times> real) list \<Rightarrow> image \<Rightarrow> image option \<Rightarrow>
     (error + fl list list) \<times> classifier" where
  "particle_weight self particles hsv_img msk = (all_weights self particles hsv_img msk, self)"

definition score_object ::
  "classifier \<Rightarrow> image \<Rightarrow> bbox \<Rightarrow> image option \<Rightarrow> (error + fl list list) \<times> classifier" where
  "score_object self hsv_img bb msk = particle_weight self (centroid bb) hsv_img msk"

definition update_object_histogram ::
  "classifier \<Rightarrow> fl list \<Rightarrow> real \<Rightarrow> (error + unit) \<times> classifier" where
  "update_object_histogram self new_histogram update_factor =
     (case np_broadcast_shape (length (self_color_hist self)) (length new_histogram) of
        Inl e \<Rightarrow> (Inl e, self)
      | Inr n \<Rightarrow>
          (Inr (),
           self\<lparr>self_color_hist :=
                  np_broadcast fl_add n
                    (map (fl_mul (Fin (1 - update_factor))) (self_color_hist self))
                    (map (fl_mul (Fin update_factor)) new_histogram)\<rparr>))"

definition color_hist_params :: "classifier \<Rightarrow> hist_params \<times> classifier" where
  "color_hist_params self = (self_color_hist_params self, self)"

section \<open>The formulas of the specification\<close>

text \<open>
  The distance and the weight as the specification writes them, over real numbers:
  \<open>d = (1/\<surd>2) \<cdot> sqrt (\<Sum> (sqrt ref_bin - sqrt cand_bin)\<^sup>2)\<close> and
  \<open>w = exp (- d\<^sup>2 / (2 \<cdot> \<sigma>\<^sup>2))\<close> with \<open>\<sigma> = 0.1\<close>.
\<close>

definition bhattacharyya_distance :: "real list \<Rightarrow> real list \<Rightarrow> real" where
  "bhattacharyya_distance p q =
     (1 / sqrt 2) * sqrt (sum_list (map2 (\<lambda>a b. (sqrt a - sqrt b)\<^sup>2) p q))"

definition gaussian_weight :: "real \<Rightarrow> real" where
  "gaussian_weight d = exp (- d\<^sup>2 / (2 * (1 / 10)\<^sup>2))"

text \<open>
  The histogram builder as the specification describes its use of an externally supplied
  mask: the mask, cropped like the image, stands in for the derived achromatic mask. Every
  other line is the line of \<open>compute_object_histogram\<close>.
\<close>

definition compute_object_histogram_as_specified ::
  "image \<Rightarrow> bbox \<Rightarrow> int list \<Rightarrow> image option \<Rightarrow> int list \<Rightarrow> real list \<Rightarrow> error + fl list" where
  "compute_object_histogram_as_specified img objectBB channels msk num_bins intervals =
     (if length num_bins < 3 then Inl IndexError
      else if num_bins ! 0 * num_bins ! 1 + num_bins ! 2 < 0 then Inl ValueError
      else
        let obj_hist = replicate (nat (num_bins ! 0 * num_bins ! 1 + num_bins ! 2)) (Fin 0);
            obj_image = np_slice2d img (py_int (bb_top objectBB)) (py_int (bb_bottom objectBB))
                          (py_int (bb_left objectBB)) (py_int (bb_right objectBB));
            splitted_img = cv2_split obj_image
        in if length splitted_img = 3 then
             let maskH = cv2_threshold_binary (splitted_img ! 0) 25 255;
                 maskS = cv2_threshold_binary (splitted_img ! 1) 51 255;
                 maskHS = cv2_bitwise_and maskH maskS;
                 white_mask = (\<lambda>i j. 255);
                 maskV =
                   (case msk of
                      None \<Rightarrow> cv2_bitwise_xor maskHS white_mask
                    | Some m \<Rightarrow>
                        (\<lambda>i j. img_px (np_slice2d m (py_int (bb_top objectBB))
                                   (py_int (bb_bottom objectBB)) (py_int (bb_left objectBB))
                                   (py_int (bb_right objectBB))) i j 0))
             in case cv2_calcHist obj_image (take 2 channels) maskHS (take 2 num_bins)
                       (take 4 intervals) of
                  Inl e \<Rightarrow> Inl e
                | Inr hs_hist \<Rightarrow>
                    (case cv2_calcHist obj_image (take 1 (drop 2 channels)) maskV
                            (take 1 (drop 2 num_bins)) (drop 4 intervals) of
                       Inl e \<Rightarrow> Inl e
                     | Inr v_hist \<Rightarrow>
                         let obj_hist = hs_hist @ v_hist
                         in Inr (map (\<lambda>x. fl_div x (fl_sum obj_hist)) obj_hist))
           else Inr obj_hist)"

text \<open>
  What a histogram of \<open>n\<close> bins can be: all zero, all \<^verbatim>\<open>nan\<close>, or a probability mass
  function.
\<close>

definition fl_histogram :: "nat \<Rightarrow> fl list \<Rightarrow> bool" where
  "fl_histogram n h \<longleftrightarrow>
     h = replicate n (Fin 0) \<or> h = replicate n NaN \<or>
     (\<exists>ps. h = map Fin ps \<and> length ps = n \<and> list_all (\<lambda>p. 0 \<le> p) ps \<and> sum_list ps = 1)"

section \<open>Concrete images and classifiers\<close>

definition hsv_channels :: "int list" where
  "hsv_channels = [0, 1, 2]"

definition one_bin :: "int list" where
  "one_bin = [1, 1, 1]"

definition full_intervals :: "real list" where
  "full_intervals = [0, 180, 0, 256, 0, 256]"

definition dark_intervals :: "real list" where
  "dark_intervals = [0, 180, 0, 256, 0, 128]"

text \<open>One bright gray pixel: hue 0, saturation 0, value 200.\<close>

definition gray_pixel :: image where
  "gray_pixel = \<lparr>img_h = 1, img_w = 1, img_c = 3, img_px = (\<lambda>i j k. [0, 0, 200] ! k)\<rparr>"

definition unit_bb :: bbox where
  "unit_bb = \<lparr>bb_left = 0, bb_top = 0, bb_right = 1, bb_bottom = 1\<rparr>"

text \<open>One row of four pixels: two gray ones, then two saturated ones.\<close>

definition strip :: image where
  "strip = \<lparr>img_h = 1, img_w = 4, img_c = 3,
            img_px = (\<lambda>i j k. (if j < 2 then [0, 0, 200] else [100, 100, 50]) ! k)\<rparr>"

definition strip_bb :: bbox where
  "strip_bb = \<lparr>bb_left = 0, bb_top = 0, bb_right = 2, bb_bottom = 1\<rparr>"

text \<open>A region of no width and no height.\<close>

definition empty_bb :: bbox where
  "empty_bb = \<lparr>bb_left = 0, bb_top = 0, bb_right = 0, bb_bottom = 0\<rparr>"

definition whole_strip_bb :: bbox where
  "whole_strip_bb = \<lparr>bb_left = 0, bb_top = 0, bb_right = 4, bb_bottom = 1\<rparr>"

definition strip_classifier :: classifier where
  "strip_classifier =
     \<lparr>self_bb = strip_bb, self_obj_img = np_slice2d strip 0 1 0 2,
      self_color_hist_params =
        \<lparr>hist_channels = hsv_channels, hist_mask = None, hist_num_bins = one_bin,
         hist_intervals = full_intervals\<rparr>,
      self_color_hist = [Fin 0, Fin 1]\<rparr>"

text \<open>A mask over \<open>strip\<close> that keeps the first pixel only.\<close>

definition first_pixel_mask :: image where
  "first_pixel_mask = \<lparr>img_h = 1, img_w = 4, img_c = 1,
                       img_px = (\<lambda>i j k. if j = 0 then 255 else 0)\<rparr>"

text \<open>One row of two gray pixels, of value 100 and 200.\<close>

definition two_gray :: image where
  "two_gray = \<lparr>img_h = 1, img_w = 2, img_c = 3,
               img_px = (\<lambda>i j k. (if j = 0 then [0, 0, 100] else [0, 0, 200]) ! k)\<rparr>"

definition two_gray_classifier :: classifier where
  "two_gray_classifier =
     \<lparr>self_bb = unit_bb, self_obj_img = np_slice2d two_gray 0 1 0 1,
      self_color_hist_params =
        \<lparr>hist_channels = hsv_channels, hist_mask = None, hist_num_bins = one_bin,
         hist_intervals = dark_intervals\<rparr>,
      self_color_hist = [Fin 0, Fin 1]\<rparr>"

text \<open>A grayscale image of one pixel, and an image of one pixel with four channels.\<close>

definition gray_plane :: image where
  "gray_plane = \<lparr>img_h = 1, img_w = 1, img_c = 1, img_px = (\<lambda>i j k. 200)\<rparr>"

definition four_channels :: image where
  "four_channels = \<lparr>img_h = 1, img_w = 1, img_c = 4, img_px = (\<lambda>i j k. 200)\<rparr>"

section \<open>Floating-point sums of finite values\<close>

lemma fl_sum_map_Fin: "fl_sum (map Fin xs) = Fin (sum_list xs)"
  by (induction xs) simp_all

lemma fl_sum_counts: "fl_sum (map (\<lambda>n. Fin (real n)) cs) = Fin (real (sum_list cs))"
  by (induction cs) simp_all

lemma fl_sum_replicate_NaN: "0 < n \<Longrightarrow> fl_sum (replicate n NaN) = NaN"
  by (cases n) simp_all

lemma fl_div_counts_zero:
  "\<forall>c \<in> set cs. c = (0::nat) \<Longrightarrow>
   map (\<lambda>x. fl_div x (Fin 0)) (map (\<lambda>n. Fin (real n)) cs) = replicate (length cs) NaN"
  by (induction cs) simp_all

lemma fl_div_counts_pos:
  "t \<noteq> 0 \<Longrightarrow>
   map (\<lambda>x. fl_div x (Fin t)) (map (\<lambda>n. Fin (real n)) cs) = map Fin (map (\<lambda>n. real n / t) cs)"
  by simp

lemma sum_list_divide: "sum_list (map (\<lambda>n. real n / t) cs) = real (sum_list cs) / t"
  by (induction cs) (simp_all add: add_divide_distrib)

lemma normalise_counts_zero:
  assumes "sum_list (cs :: nat list) = 0"
  shows "map (\<lambda>x. fl_div x (fl_sum (map (\<lambda>n. Fin (real n)) cs))) (map (\<lambda>n. Fin (real n)) cs)
         = replicate (length cs) NaN"
proof -
  from assms have "\<forall>c \<in> set cs. c = 0" by simp
  then show ?thesis
    unfolding fl_sum_counts assms using fl_div_counts_zero [of cs] by simp
qed

lemma normalise_counts_pos:
  assumes "sum_list (cs :: nat list) \<noteq> 0"
  shows "map (\<lambda>x. fl_div x (fl_sum (map (\<lambda>n. Fin (real n)) cs))) (map (\<lambda>n. Fin (real n)) cs)
         = map Fin (map (\<lambda>n. real n / real (sum_list cs)) cs)"
proof -
  from assms have "real (sum_list cs) \<noteq> 0" by (metis of_nat_eq_0_iff)
  then show ?thesis
    unfolding fl_sum_counts by (rule fl_div_counts_pos)
qed

lemma normalised_counts_pmf:
  assumes "sum_list (cs :: nat list) \<noteq> 0"
  shows "list_all (\<lambda>p. 0 \<le> p) (map (\<lambda>n. real n / real (sum_list cs)) cs)"
    and "sum_list (map (\<lambda>n. real n / real (sum_list cs)) cs) = 1"
proof -
  show "list_all (\<lambda>p. 0 \<le> p) (map (\<lambda>n. real n / real (sum_list cs)) cs)"
    by (simp add: list_all_iff)
  from assms have "real (sum_list cs) \<noteq> 0" by (metis of_nat_eq_0_iff)
  then show "sum_list (map (\<lambda>n. real n / real (sum_list cs)) cs) = 1"
    unfolding sum_list_divide by simp
qed

section \<open>The histogram builder\<close>

lemma length_hist_counts:
  "length (hist_counts img chans msk histSize rgs) = nat (prod_list histSize)"
  by (simp add: hist_counts_def)

lemma cv2_calcHist_counts:
  assumes "cv2_calcHist img channels msk histSize ranges = Inr h"
  shows "\<exists>cs. h = map (\<lambda>n. Fin (real n)) cs \<and> length cs = nat (prod_list histSize)"
  using assms
  by (auto simp: cv2_calcHist_def length_hist_counts Let_def split: if_splits)

lemma cv2_calcHist_positive:
  assumes "cv2_calcHist img channels msk histSize ranges = Inr h"
  shows "list_all (\<lambda>sz. 0 < sz) histSize"
  using assms
  by (auto simp: cv2_calcHist_def Let_def split: if_splits)

lemma hist_length_arith:
  fixes nb :: "int list"
  assumes "3 \<le> length nb" "list_all (\<lambda>sz. 0 < sz) (take 2 nb)"
    "list_all (\<lambda>sz. 0 < sz) (take 1 (drop 2 nb))"
  shows "nat (prod_list (take 2 nb)) + nat (prod_list (take 1 (drop 2 nb)))
         = nat (nb ! 0 * nb ! 1 + nb ! 2)"
proof -
  obtain a b c rest where nb: "nb = a # b # c # rest"
    using assms(1) by (cases nb; cases "tl nb"; cases "tl (tl nb)") auto
  with assms have "0 < a" "0 < b" "0 < c" by auto
  then show ?thesis by (simp add: nb nat_add_distrib nat_mult_distrib)
qed

text \<open>
  Whatever the builder returns is a vector of the configured length, and it is all zero (the
  crop did not split into three channels), all \<^verbatim>\<open>nan\<close> (three channels, no pixel counted)
  or a probability mass function (some pixel counted).
\<close>

lemma compute_object_histogram_cases:
  assumes "compute_object_histogram img objectBB channels msk num_bins intervals = Inr h"
  shows "fl_histogram (nat (num_bins ! 0 * num_bins ! 1 + num_bins ! 2)) h"
proof -
  let ?n = "nat (num_bins ! 0 * num_bins ! 1 + num_bins ! 2)"
  let ?crop = "np_slice2d img (py_int (bb_top objectBB)) (py_int (bb_bottom objectBB))
                          (py_int (bb_left objectBB)) (py_int (bb_right objectBB))"
  from assms have len: "3 \<le> length num_bins"
    by (auto simp: compute_object_histogram_def split: if_splits)
  show ?thesis
  proof (cases "length (cv2_split ?crop) = 3")
    case False
    with assms have "h = replicate ?n (Fin 0)"
      by (auto simp: compute_object_histogram_def Let_def split: if_splits)
    then show ?thesis by (simp add: fl_histogram_def)
  next
    case True
    with assms obtain mHS mV hs v where
      hs: "cv2_calcHist ?crop (take 2 channels) mHS (take 2 num_bins) (take 4 intervals) = Inr hs"
      and v: "cv2_calcHist ?crop (take 1 (drop 2 channels)) mV (take 1 (drop 2 num_bins))
                (drop 4 intervals) = Inr v"
      and h: "h = map (\<lambda>x. fl_div x (fl_sum (hs @ v))) (hs @ v)"
      by (auto simp: compute_object_histogram_def Let_def split: if_splits sum.splits)
    from cv2_calcHist_counts [OF hs] obtain cs1 where
      cs1: "hs = map (\<lambda>n. Fin (real n)) cs1" "length cs1 = nat (prod_list (take 2 num_bins))"
      by blast
    from cv2_calcHist_counts [OF v] obtain cs2 where
      cs2: "v = map (\<lambda>n. Fin (real n)) cs2"
        "length cs2 = nat (prod_list (take 1 (drop 2 num_bins)))"
      by blast
    have n: "length (cs1 @ cs2) = ?n"
      using hist_length_arith [OF len cv2_calcHist_positive [OF hs] cv2_calcHist_positive [OF v]]
        cs1(2) cs2(2)
      by simp
    have h': "h = map (\<lambda>x. fl_div x (fl_sum (map (\<lambda>n. Fin (real n)) (cs1 @ cs2))))
                    (map (\<lambda>n. Fin (real n)) (cs1 @ cs2))"
      using h cs1(1) cs2(1) by simp
    show ?thesis
    proof (cases "sum_list (cs1 @ cs2) = 0")
      case True
      then have "h = replicate ?n NaN"
        unfolding h' using normalise_counts_zero [of "cs1 @ cs2"] n by simp
      then show ?thesis by (simp add: fl_histogram_def)
    next
      case False
      note pos = False
      have "h = map Fin (map (\<lambda>n. real n / real (sum_list (cs1 @ cs2))) (cs1 @ cs2))"
        unfolding h' using normalise_counts_pos [OF pos] by simp
      moreover have "length (map (\<lambda>n. real n / real (sum_list (cs1 @ cs2))) (cs1 @ cs2)) = ?n"
        using n by simp
      ultimately show ?thesis
        unfolding fl_histogram_def
        using normalised_counts_pmf [OF pos] by blast
    qed
  qed
qed

lemma fl_histogram_length: "fl_histogram n h \<Longrightarrow> length h = n"
  by (auto simp: fl_histogram_def)

lemma fl_histogram_Fin:
  assumes "fl_histogram n (map Fin cs)"
  shows "length cs = n" and "\<forall>c \<in> set cs. 0 \<le> c"
proof -
  from assms have "length (map Fin cs) = n" by (rule fl_histogram_length)
  then show "length cs = n" by simp
  from assms consider "map Fin cs = replicate n (Fin 0)" | "map Fin cs = replicate n NaN"
    | ps where "map Fin cs = map Fin ps" "list_all (\<lambda>p. 0 \<le> p) ps"
    by (auto simp: fl_histogram_def)
  then show "\<forall>c \<in> set cs. 0 \<le> c"
  proof cases
    case 1
    then have "map Fin cs = map Fin (replicate n 0)" by simp
    then have "cs = replicate n 0" by (simp add: inj_on_def del: map_replicate)
    then show ?thesis by simp
  next
    case 2
    show ?thesis
    proof
      fix c assume "c \<in> set cs"
      then have "Fin c \<in> set (map Fin cs)" by simp
      with 2 show "0 \<le> c" by simp
    qed
  next
    case 3
    from 3(1) have "cs = ps" by (simp add: inj_on_def)
    with 3(2) show ?thesis by (simp add: list_all_iff)
  qed
qed

lemma fl_histogram_zero_sum:
  assumes "fl_histogram n h" and "fl_sum h = Fin 0"
  shows "h = replicate n (Fin 0)"
proof -
  from assms(1) consider "h = replicate n (Fin 0)" | "h = replicate n NaN"
    | ps where "h = map Fin ps" "sum_list ps = 1"
    by (auto simp: fl_histogram_def)
  then show ?thesis
  proof cases
    case 1
    then show ?thesis .
  next
    case 2
    show ?thesis
    proof (cases n)
      case 0
      with 2 show ?thesis by simp
    next
      case (Suc m)
      with 2 assms(2) show ?thesis by simp
    qed
  next
    case 3
    with assms(2) show ?thesis by (simp add: fl_sum_map_Fin)
  qed
qed

section \<open>The scorer\<close>

lemma particle_hists_length:
  "particle_hists self hsv_img msk particles = Inr hs \<Longrightarrow> length hs = length particles"
  by (induction particles arbitrary: hs) (auto simp: Let_def split: sum.splits)

lemma particle_hists_nth:
  "particle_hists self hsv_img msk particles = Inr hs \<Longrightarrow> i < length particles \<Longrightarrow>
   compute_object_histogram hsv_img
     (centered_on (self_bb self) (fst (particles ! i)) (snd (particles ! i)))
     (hist_channels (self_color_hist_params self)) msk
     (hist_num_bins (self_color_hist_params self))
     (hist_intervals (self_color_hist_params self)) = Inr (hs ! i)"
proof (induction particles arbitrary: hs i)
  case Nil
  then show ?case by simp
next
  case (Cons state rest)
  then show ?case
    by (cases i) (auto simp: Let_def split: sum.splits)
qed

lemma all_weights_length:
  "all_weights self particles hsv_img msk = Inr W \<Longrightarrow> length W = length particles"
  by (auto simp: all_weights_def Let_def particle_hists_length split: if_splits sum.splits)

lemma all_weights_nth:
  assumes "all_weights self particles hsv_img msk = Inr W" and "i < length particles"
  shows "\<exists>n h. np_broadcast_shape (length (self_color_hist self))
                 (nat (hist_num_bins (self_color_hist_params self) ! 0
                       * hist_num_bins (self_color_hist_params self) ! 1
                       + hist_num_bins (self_color_hist_params self) ! 2)) = Inr n
          \<and> compute_object_histogram hsv_img
               (centered_on (self_bb self) (fst (particles ! i)) (snd (particles ! i)))
               (hist_channels (self_color_hist_params self)) msk
               (hist_num_bins (self_color_hist_params self))
               (hist_intervals (self_color_hist_params self)) = Inr h
          \<and> W ! i = [fl_mul (kernel_weight (particle_dist n (self_color_hist self) h))
                       (Fin (if valid_mask hsv_img (particles ! i) then 1 else 0))]"
proof -
  from assms(1) obtain hs n where
    hs: "particle_hists self hsv_img msk particles = Inr hs"
    and n: "np_broadcast_shape (length (self_color_hist self))
                 (nat (hist_num_bins (self_color_hist_params self) ! 0
                       * hist_num_bins (self_color_hist_params self) ! 1
                       + hist_num_bins (self_color_hist_params self) ! 2)) = Inr n"
    and W: "W = map2 (\<lambda>state particle_hist.
                         [fl_mul (kernel_weight (particle_dist n (self_color_hist self) particle_hist))
                            (Fin (if valid_mask hsv_img state then 1 else 0))])
                      particles hs"
    by (auto simp: all_weights_def Let_def split: if_splits sum.splits)
  have len: "length hs = length particles" using hs by (rule particle_hists_length)
  have "W ! i = [fl_mul (kernel_weight (particle_dist n (self_color_hist self) (hs ! i)))
                       (Fin (if valid_mask hsv_img (particles ! i) then 1 else 0))]"
    unfolding W using assms(2) len by simp
  with n particle_hists_nth [OF hs assms(2)] show ?thesis by blast
qed

lemma np_broadcast_shape_same: "np_broadcast_shape n n = Inr n"
  by (simp add: np_broadcast_shape_def)

lemma np_broadcast_same_length:
  "length xs = n \<Longrightarrow> length ys = n \<Longrightarrow> np_broadcast f n xs ys = map2 f xs ys"
  by (simp add: np_broadcast_def np_stretch_def)

lemma map2_fl_sub_Fin:
  "length xs = length ys \<Longrightarrow>
   map2 fl_sub (map Fin xs) (map Fin ys) = map Fin (map2 (-) xs ys)"
  by (induction xs ys rule: list_induct2) (simp_all add: fl_sub_def)

lemma map2_fl_add_Fin:
  "length xs = length ys \<Longrightarrow>
   map2 fl_add (map Fin xs) (map Fin ys) = map Fin (map2 (+) xs ys)"
  by (induction xs ys rule: list_induct2) simp_all

lemma sum_list_sq_nonneg:
  fixes f g :: "real \<Rightarrow> real"
  shows "0 \<le> sum_list (map2 (\<lambda>a b. (f a - g b)\<^sup>2) xs ys)"
  by (rule sum_list_nonneg) auto

text \<open>
  On finite, non-negative histograms the distance computed in floating-point values is the
  distance of the specification between the two normalised histograms.
\<close>

lemma particle_dist_Fin:
  assumes "\<forall>r \<in> set rs. 0 \<le> r" and "0 < sum_list rs"
    and "\<forall>c \<in> set cs. 0 \<le> c" and "length rs = n" and "length cs = n"
  shows "particle_dist n (map Fin rs) (map Fin cs) =
           Fin (bhattacharyya_distance (map (\<lambda>x. x / sum_list rs) rs)
                  (map (\<lambda>x. x / (if sum_list cs = 0 then 1 else sum_list cs)) cs))"
proof -
  define S where "S = sum_list rs"
  define C where "C = (if sum_list cs = 0 then 1 else sum_list cs)"
  define ps where "ps = map (\<lambda>x. x / S) rs"
  define qs where "qs = map (\<lambda>x. x / C) cs"
  have S: "0 < S" using assms(2) by (simp add: S_def)
  have "0 \<le> sum_list cs" using assms(3) by (simp add: sum_list_nonneg)
  then have C: "0 < C" by (simp add: C_def)
  have ps: "\<forall>p \<in> set ps. 0 \<le> p" using assms(1) S by (auto simp: ps_def)
  have qs: "\<forall>q \<in> set qs. 0 \<le> q" using assms(3) C by (auto simp: qs_def)
  have len: "length ps = n" "length qs = n" using assms(4,5) by (simp_all add: ps_def qs_def)
  have ref: "map (\<lambda>x. fl_div x (Fin S)) (map Fin rs) = map Fin ps"
    using S by (simp add: ps_def)
  have cand: "map (\<lambda>x. fl_div x (Fin C)) (map Fin cs) = map Fin qs"
    using C by (simp add: qs_def)
  have sumh: "(if fl_sum (map Fin cs) = Fin 0 then Fin 1 else fl_sum (map Fin cs)) = Fin C"
    by (simp add: fl_sum_map_Fin C_def)
  have sqrts: "\<And>xs. \<forall>x \<in> set xs. 0 \<le> x \<Longrightarrow> map fl_sqrt (map Fin xs) = map Fin (map sqrt xs)"
    by simp
  have br: "np_broadcast fl_sub n (map Fin (map sqrt ps)) (map Fin (map sqrt qs))
            = map Fin (map2 (-) (map sqrt ps) (map sqrt qs))"
  proof -
    have "np_broadcast fl_sub n (map Fin (map sqrt ps)) (map Fin (map sqrt qs))
            = map2 fl_sub (map Fin (map sqrt ps)) (map Fin (map sqrt qs))"
      by (rule np_broadcast_same_length) (simp_all add: len)
    also have "\<dots> = map Fin (map2 (-) (map sqrt ps) (map sqrt qs))"
      by (rule map2_fl_sub_Fin) (simp add: len)
    finally show ?thesis .
  qed
  have sq: "map fl_pow2 (map Fin (map2 (-) (map sqrt ps) (map sqrt qs)))
            = map Fin (map2 (\<lambda>a b. (sqrt a - sqrt b)\<^sup>2) ps qs)"
    by (simp add: map_zip_map map_zip_map2 split_def comp_def)
  have "particle_dist n (map Fin rs) (map Fin cs) =
          fl_mul (Fin (1 / sqrt 2))
            (fl_sqrt (fl_sum (map fl_pow2
               (np_broadcast fl_sub n (map fl_sqrt (map (\<lambda>x. fl_div x (Fin S)) (map Fin rs)))
                  (map fl_sqrt (map (\<lambda>x. fl_div x (Fin C)) (map Fin cs)))))))"
    unfolding particle_dist_def Let_def sumh by (simp only: fl_sum_map_Fin S_def)
  also have "\<dots> = fl_mul (Fin (1 / sqrt 2))
            (fl_sqrt (fl_sum (map Fin (map2 (\<lambda>a b. (sqrt a - sqrt b)\<^sup>2) ps qs))))"
    by (simp only: ref cand sqrts [OF ps] sqrts [OF qs] br sq)
  also have "\<dots> = Fin (bhattacharyya_distance ps qs)"
    unfolding fl_sum_map_Fin bhattacharyya_distance_def
    using sum_list_sq_nonneg [of sqrt sqrt ps qs] by simp
  finally show ?thesis by (simp only: ps_def qs_def S_def C_def)
qed

lemma kernel_weight_Fin: "kernel_weight (Fin d) = Fin (gaussian_weight d)"
  by (simp add: kernel_weight_def gaussian_weight_def sigma_def)

lemma gaussian_weight_zero: "gaussian_weight 0 = 1"
  by (simp add: gaussian_weight_def)

lemma gaussian_weight_unit: "0 < gaussian_weight d" "gaussian_weight d \<le> 1"
  by (simp_all add: gaussian_weight_def)

lemma gaussian_weight_inv_sqrt2: "gaussian_weight (1 / sqrt 2) = exp (- 25)"
  by (simp add: gaussian_weight_def power_divide)

lemma fl_mul_valid: "fl_mul (Fin w) (Fin (if v then 1 else 0)) = Fin (if v then w else 0)"
  by simp

text \<open>The distance of a probability mass function from the all-zero vector.\<close>

lemma sum_list_sq_zero:
  "\<forall>p \<in> set ps. 0 \<le> p \<Longrightarrow>
   sum_list (map2 (\<lambda>a b. (sqrt a - sqrt b)\<^sup>2) ps (replicate (length ps) 0)) = sum_list ps"
  by (induction ps) simp_all

lemma sum_list_normalised:
  "sum_list rs \<noteq> 0 \<Longrightarrow> sum_list (map (\<lambda>x. x / sum_list rs) rs) = (1::real)"
proof -
  have "\<And>t. sum_list (map (\<lambda>x. x / t) rs) = sum_list rs / (t::real)"
    by (induction rs) (simp_all add: add_divide_distrib)
  then show "sum_list rs \<noteq> 0 \<Longrightarrow> sum_list (map (\<lambda>x. x / sum_list rs) rs) = 1" by simp
qed

lemma bhattacharyya_distance_zero_candidate:
  assumes "\<forall>r \<in> set rs. 0 \<le> r" and "0 < sum_list rs"
  shows "bhattacharyya_distance (map (\<lambda>x. x / sum_list rs) rs) (replicate (length rs) 0)
         = 1 / sqrt 2"
proof -
  have nn: "\<forall>p \<in> set (map (\<lambda>x. x / sum_list rs) rs). 0 \<le> p"
    using assms by auto
  have "sum_list (map2 (\<lambda>a b. (sqrt a - sqrt b)\<^sup>2) (map (\<lambda>x. x / sum_list rs) rs)
          (replicate (length rs) 0)) = sum_list (map (\<lambda>x. x / sum_list rs) rs)"
    using sum_list_sq_zero [OF nn] by simp
  also have "\<dots> = 1" using assms(2) by (simp add: sum_list_normalised)
  finally show ?thesis by (simp add: bhattacharyya_distance_def)
qed

section \<open>Evaluation on the concrete inputs\<close>

lemma replicate_2: "replicate 2 x = [x, x]"
  by (simp add: numeral_2_eq_2)

lemmas builder_eval = compute_object_histogram_def np_slice2d_def py_slice_def py_int_def
  ceiling_def cv2_split_def cv2_calcHist_def hist_counts_def bin_index_def
  cv2_threshold_binary_def cv2_bitwise_and_def cv2_bitwise_xor_def Let_def upt_conv_Cons
  centered_on_def replicate_2 hsv_channels_def one_bin_def full_intervals_def
  dark_intervals_def

lemma strip_reference:
  "compute_object_histogram strip strip_bb hsv_channels None one_bin full_intervals
   = Inr [Fin 0, Fin 1]"
  by (simp add: builder_eval strip_def strip_bb_def)

lemma init_strip:
  "init strip strip_bb hsv_channels None one_bin full_intervals = Inr strip_classifier"
  by (simp add: init_def strip_reference strip_classifier_def)
     (simp add: strip_bb_def py_int_def)

lemma strip_left_particle:
  "compute_object_histogram strip (centered_on strip_bb 0 (1 / 2)) hsv_channels None one_bin
     full_intervals = Inr [Fin 0, Fin 0]"
  by (simp add: builder_eval strip_def strip_bb_def)

lemma strip_right_particle:
  "compute_object_histogram strip (centered_on strip_bb 3 (1 / 2)) hsv_channels None one_bin
     full_intervals = Inr [Fin 1, Fin 0]"
  by (simp add: builder_eval strip_def strip_bb_def)

lemma strip_same_particle:
  "compute_object_histogram strip (centered_on strip_bb 1 (1 / 2)) hsv_channels None one_bin
     full_intervals = Inr [Fin 0, Fin 1]"
  by (simp add: builder_eval strip_def strip_bb_def)

lemma strip_classifier_fields:
  "self_bb strip_classifier = strip_bb"
  "hist_channels (self_color_hist_params strip_classifier) = hsv_channels"
  "hist_num_bins (self_color_hist_params strip_classifier) = one_bin"
  "hist_intervals (self_color_hist_params strip_classifier) = full_intervals"
  "self_color_hist strip_classifier = [Fin 0, Fin 1]"
  by (simp_all add: strip_classifier_def)

lemma strip_particle_hists:
  "particle_hists strip_classifier strip None [(0, 1 / 2), (3, 1 / 2), (1, 1 / 2)]
   = Inr [[Fin 0, Fin 0], [Fin 1, Fin 0], [Fin 0, Fin 1]]"
  by (simp add: strip_classifier_fields strip_left_particle strip_right_particle
      strip_same_particle)

lemma dist_zero_candidate: "particle_dist (Suc (Suc 0)) [Fin 0, Fin 1] [Fin 0, Fin 0] = Fin (1 / sqrt 2)"
  by (simp add: particle_dist_def np_broadcast_def np_stretch_def fl_sub_def)

lemma dist_disjoint_candidate: "particle_dist (Suc (Suc 0)) [Fin 0, Fin 1] [Fin 1, Fin 0] = Fin 1"
  by (simp add: particle_dist_def np_broadcast_def np_stretch_def fl_sub_def)

lemma dist_same_candidate: "particle_dist (Suc (Suc 0)) [Fin 0, Fin 1] [Fin 0, Fin 1] = Fin 0"
  by (simp add: particle_dist_def np_broadcast_def np_stretch_def fl_sub_def)

lemma dist_nan_candidate: "particle_dist (Suc (Suc 0)) [Fin 0, Fin 1] [NaN, NaN] = NaN"
  by (simp add: particle_dist_def np_broadcast_def np_stretch_def fl_sub_def)

lemma kernel_weight_values:
  "kernel_weight (Fin (1 / sqrt 2)) = Fin (exp (- 25))"
  "kernel_weight (Fin 1) = Fin (exp (- 50))"
  "kernel_weight (Fin 0) = Fin 1"
  "kernel_weight NaN = NaN"
  by (simp_all add: kernel_weight_def sigma_def power_divide)

lemma strip_valid:
  "valid_mask strip (0, 1 / 2)" "valid_mask strip (3, 1 / 2)" "valid_mask strip (1, 1 / 2)"
  by (simp_all add: valid_mask_def strip_def)

lemma strip_all_weights:
  "all_weights strip_classifier [(0, 1 / 2), (3, 1 / 2), (1, 1 / 2)] strip None
   = Inr [[Fin (exp (- 25))], [Fin (exp (- 50))], [Fin 1]]"
  by (simp add: all_weights_def Let_def strip_particle_hists strip_classifier_fields one_bin_def
      np_broadcast_shape_def dist_zero_candidate dist_disjoint_candidate dist_same_candidate
      kernel_weight_values strip_valid del: particle_hists.simps)

lemma two_gray_reference:
  "init two_gray unit_bb hsv_channels None one_bin dark_intervals = Inr two_gray_classifier"
  by (simp add: init_def two_gray_classifier_def builder_eval two_gray_def unit_bb_def)

lemma two_gray_bright_particle:
  "compute_object_histogram two_gray (centered_on unit_bb (3 / 2) (1 / 2)) hsv_channels None
     one_bin dark_intervals = Inr [NaN, NaN]"
  by (simp add: builder_eval two_gray_def unit_bb_def)

lemma two_gray_classifier_fields:
  "self_bb two_gray_classifier = unit_bb"
  "hist_channels (self_color_hist_params two_gray_classifier) = hsv_channels"
  "hist_num_bins (self_color_hist_params two_gray_classifier) = one_bin"
  "hist_intervals (self_color_hist_params two_gray_classifier) = dark_intervals"
  "self_color_hist two_gray_classifier = [Fin 0, Fin 1]"
  by (simp_all add: two_gray_classifier_def)

lemma two_gray_particle_hists:
  "particle_hists two_gray_classifier two_gray None [(3 / 2, 1 / 2)] = Inr [[NaN, NaN]]"
  by (simp add: two_gray_classifier_fields two_gray_bright_particle)

lemma two_gray_all_weights:
  "all_weights two_gray_classifier [(3 / 2, 1 / 2)] two_gray None = Inr [[NaN]]"
  by (simp add: all_weights_def Let_def two_gray_particle_hists two_gray_classifier_fields
      one_bin_def np_broadcast_shape_def dist_nan_candidate kernel_weight_values
      del: particle_hists.simps)

lemma two_gray_outside_particle:
  "compute_object_histogram two_gray (centered_on unit_bb 2 (1 / 2)) hsv_channels None
     one_bin dark_intervals = Inr [NaN, NaN]"
  by (simp add: builder_eval two_gray_def unit_bb_def)

lemma two_gray_outside_particle_hists:
  "particle_hists two_gray_classifier two_gray None [(2, 1 / 2)] = Inr [[NaN, NaN]]"
  by (simp add: two_gray_classifier_fields two_gray_outside_particle)

lemma two_gray_outside_invalid: "\<not> valid_mask two_gray (2, 1 / 2)"
  by (simp add: valid_mask_def two_gray_def)

lemma two_gray_outside_all_weights:
  "all_weights two_gray_classifier [(2, 1 / 2)] two_gray None = Inr [[NaN]]"
  by (simp add: all_weights_def Let_def two_gray_outside_particle_hists
      two_gray_classifier_fields one_bin_def np_broadcast_shape_def dist_nan_candidate
      kernel_weight_values two_gray_outside_invalid del: particle_hists.simps)

section \<open>Shape of the weights, and the unused mask\<close>

lemma particle_weight_column:
  assumes "all_weights self particles hsv_img msk = Inr W"
  shows "length W = length particles" and "\<forall>row \<in> set W. length row = 1"
proof -
  show "length W = length particles" using assms by (rule all_weights_length)
  from assms show "\<forall>row \<in> set W. length row = 1"
    by (auto simp: all_weights_def Let_def split: if_splits sum.splits)
qed

lemma compute_object_histogram_mask:
  "compute_object_histogram img objectBB channels msk num_bins intervals
   = compute_object_histogram img objectBB channels None num_bins intervals"
  by (simp add: compute_object_histogram_def)

lemma particle_hists_mask:
  "particle_hists self hsv_img msk particles = particle_hists self hsv_img None particles"
proof (induction particles)
  case Nil
  show ?case by simp
next
  case (Cons state rest)
  show ?case
    unfolding particle_hists.simps Cons.IH
    by (subst compute_object_histogram_mask) (rule refl)
qed

lemma all_weights_mask:
  "all_weights self particles hsv_img msk = all_weights self particles hsv_img None"
  unfolding all_weights_def by (subst particle_hists_mask) (rule refl)

lemma split_channels:
  "length (cv2_split img) = (if img_h img = 0 \<or> img_w img = 0 then 0 else img_c img)"
  by (simp add: cv2_split_def)

lemma compute_object_histogram_extra_bins:
  assumes "3 \<le> length num_bins"
  shows "compute_object_histogram img bb channels msk (num_bins @ extra) intervals
         = compute_object_histogram img bb channels msk num_bins intervals"
proof -
  have t2: "take 2 (num_bins @ extra) = take 2 num_bins"
    and t1: "take 1 (drop 2 (num_bins @ extra)) = take 1 (drop 2 num_bins)"
    and n0: "(num_bins @ extra) ! 0 = num_bins ! 0"
    and n1: "(num_bins @ extra) ! 1 = num_bins ! 1"
    and n2: "(num_bins @ extra) ! 2 = num_bins ! 2"
    using assms by (auto simp: nth_append)
  show ?thesis
    unfolding compute_object_histogram_def t2 t1 n0 n1 n2 using assms by simp
qed

section \<open>Finite histograms\<close>

lemma map_fl_mul_Fin: "map (fl_mul (Fin a)) (map Fin xs) = map Fin (map ((*) a) xs)"
  by simp

lemma update_blend_Fin:
  assumes "length new = length old"
  shows "np_broadcast fl_add (length old) (map (fl_mul (Fin (1 - f))) (map Fin old))
           (map (fl_mul (Fin f)) (map Fin new))
         = map Fin (map2 (\<lambda>p q. (1 - f) * p + f * q) old new)"
proof -
  have "np_broadcast fl_add (length old) (map Fin (map ((*) (1 - f)) old))
           (map Fin (map ((*) f) new))
        = map2 fl_add (map Fin (map ((*) (1 - f)) old)) (map Fin (map ((*) f) new))"
    by (rule np_broadcast_same_length) (simp_all add: assms)
  also have "\<dots> = map Fin (map2 (+) (map ((*) (1 - f)) old) (map ((*) f) new))"
    by (rule map2_fl_add_Fin) (simp add: assms)
  also have "map2 (+) (map ((*) (1 - f)) old) (map ((*) f) new)
             = map2 (\<lambda>p q. (1 - f) * p + f * q) old new"
    by (simp add: map_zip_map map_zip_map2 split_def)
  finally show ?thesis by (simp only: map_fl_mul_Fin)
qed

lemma map2_fst: "length xs = length ys \<Longrightarrow> map2 (\<lambda>p q. p) xs ys = xs"
  by (induction xs ys rule: list_induct2) simp_all

lemma map2_snd: "length xs = length ys \<Longrightarrow> map2 (\<lambda>p q. q) xs ys = ys"
  by (induction xs ys rule: list_induct2) simp_all

text \<open>
  The weight of one particle when the reference histogram and the particle's histogram are
  finite: the kernel of the specification at the distance of the specification, or 0 when
  the centre is outside the image.
\<close>

lemma all_weights_Fin:
  assumes W: "all_weights self particles hsv_img msk = Inr W"
    and i: "i < length particles"
    and ref: "self_color_hist self = map Fin rs" "\<forall>r \<in> set rs. 0 \<le> r" "0 < sum_list rs"
    and cand: "compute_object_histogram hsv_img
           (centered_on (self_bb self) (fst (particles ! i)) (snd (particles ! i)))
           (hist_channels (self_color_hist_params self)) msk
           (hist_num_bins (self_color_hist_params self))
           (hist_intervals (self_color_hist_params self)) = Inr (map Fin cs)"
    and len: "length rs = length cs"
  shows "particle_dist (length rs) (self_color_hist self) (map Fin cs)
         = Fin (bhattacharyya_distance (map (\<lambda>x. x / sum_list rs) rs)
                  (map (\<lambda>x. x / (if sum_list cs = 0 then 1 else sum_list cs)) cs))"
    and "W ! i =
         [Fin (if valid_mask hsv_img (particles ! i)
               then gaussian_weight
                      (bhattacharyya_distance (map (\<lambda>x. x / sum_list rs) rs)
                         (map (\<lambda>x. x / (if sum_list cs = 0 then 1 else sum_list cs)) cs))
               else 0)]"
proof -
  let ?L = "nat (hist_num_bins (self_color_hist_params self) ! 0
                 * hist_num_bins (self_color_hist_params self) ! 1
                 + hist_num_bins (self_color_hist_params self) ! 2)"
  let ?d = "bhattacharyya_distance (map (\<lambda>x. x / sum_list rs) rs)
              (map (\<lambda>x. x / (if sum_list cs = 0 then 1 else sum_list cs)) cs)"
  from all_weights_nth [OF W i] cand obtain n where
    n: "np_broadcast_shape (length (self_color_hist self)) ?L = Inr n"
    and Wi: "W ! i = [fl_mul (kernel_weight (particle_dist n (self_color_hist self) (map Fin cs)))
                       (Fin (if valid_mask hsv_img (particles ! i) then 1 else 0))]"
    by auto
  have hist: "fl_histogram ?L (map Fin cs)"
    using cand by (rule compute_object_histogram_cases)
  have L: "length cs = ?L" and nonneg: "\<forall>c \<in> set cs. 0 \<le> c"
    using fl_histogram_Fin [OF hist] by simp_all
  have "length (self_color_hist self) = ?L" using ref(1) len L by simp
  with n have n_eq: "n = length rs"
    using len L by (simp add: np_broadcast_shape_def)
  show dist: "particle_dist (length rs) (self_color_hist self) (map Fin cs) = Fin ?d"
    unfolding ref(1) using ref(2,3) nonneg len
    by (intro particle_dist_Fin) simp_all
  show "W ! i = [Fin (if valid_mask hsv_img (particles ! i) then gaussian_weight ?d else 0)]"
    unfolding Wi n_eq dist kernel_weight_Fin fl_mul_valid ..
qed

section \<open>Interval lists and the constructor\<close>

text \<open>
  Every failure of \<open>cv2_calcHist\<close> is the OpenCV error; ranges that are present and not
  two per dimension always fail; absent ranges are the ranges \<open>[0, 256)\<close>.
\<close>

lemma cv2_calcHist_error: "cv2_calcHist img channels msk histSize ranges = Inl e \<Longrightarrow> e = CvError"
  by (auto simp: cv2_calcHist_def Let_def split: if_splits)

lemma cv2_calcHist_bad_ranges:
  assumes "ranges \<noteq> []" and "length ranges \<noteq> 2 * length histSize"
  shows "cv2_calcHist img channels msk histSize ranges = Inl CvError"
  using assms by (simp add: cv2_calcHist_def Let_def)

lemma cv2_calcHist_default_1:
  assumes "length histSize = 1"
  shows "cv2_calcHist img channels msk histSize [] = cv2_calcHist img channels msk histSize [0, 256]"
  using assms by (simp add: cv2_calcHist_def Let_def)

lemma cv2_calcHist_default_2:
  assumes "length histSize = 2"
  shows "cv2_calcHist img channels msk histSize []
         = cv2_calcHist img channels msk histSize [0, 256, 0, 256]"
  using assms by (simp add: cv2_calcHist_def Let_def numeral_2_eq_2)

text \<open>
  The builder on interval lists of the wrong length, when the crop has three channels: a
  length other than 0, 4 or 6 fails in one of the two \<open>cv2_calcHist\<close> calls; four entries
  leave the achromatic ranges absent, no entry leaves all ranges absent.
\<close>

lemma compute_object_histogram_bad_intervals:
  assumes "3 \<le> length num_bins"
    and "0 \<le> num_bins ! 0 * num_bins ! 1 + num_bins ! 2"
    and "length (cv2_split (np_slice2d img (py_int (bb_top bb)) (py_int (bb_bottom bb))
           (py_int (bb_left bb)) (py_int (bb_right bb)))) = 3"
    and "length intervals \<noteq> 0" and "length intervals \<noteq> 4" and "length intervals \<noteq> 6"
  shows "compute_object_histogram img bb channels msk num_bins intervals = Inl CvError"
proof -
  have l2: "length (take 2 num_bins) = 2" and l1: "length (take 1 (drop 2 num_bins)) = 1"
    using assms(1) by simp_all
  show ?thesis
  proof (cases "length intervals < 4")
    case True
    with assms(4) have "take 4 intervals \<noteq> []"
      "length (take 4 intervals) \<noteq> 2 * length (take 2 num_bins)"
      using l2 by auto
    then have "\<And>im c m. cv2_calcHist im c m (take 2 num_bins) (take 4 intervals) = Inl CvError"
      by (rule cv2_calcHist_bad_ranges)
    then show ?thesis
      using assms(1-3) by (simp add: compute_object_histogram_def Let_def)
  next
    case False
    with assms(5,6) have "drop 4 intervals \<noteq> []"
      "length (drop 4 intervals) \<noteq> 2 * length (take 1 (drop 2 num_bins))"
      using l1 by auto
    then have "\<And>im c m. cv2_calcHist im c m (take 1 (drop 2 num_bins)) (drop 4 intervals)
                 = Inl CvError"
      by (rule cv2_calcHist_bad_ranges)
    then show ?thesis
      using assms(1-3)
      by (auto simp: compute_object_histogram_def Let_def split: sum.splits
          dest: cv2_calcHist_error)
  qed
qed

lemma compute_object_histogram_four_intervals:
  assumes "length intervals = 4"
  shows "compute_object_histogram img bb channels msk num_bins intervals
         = compute_object_histogram img bb channels msk num_bins (intervals @ [0, 256])"
proof (cases "length num_bins < 3")
  case True
  then show ?thesis by (simp add: compute_object_histogram_def)
next
  case False
  then have l1: "length (take 1 (drop 2 num_bins)) = 1" by simp
  have t: "take 4 (intervals @ [0, 256]) = take 4 intervals"
    and d: "drop 4 (intervals @ [0, 256]) = [0, 256]" "drop 4 intervals = []"
    using assms by simp_all
  show ?thesis
    unfolding compute_object_histogram_def t d cv2_calcHist_default_1 [OF l1] ..
qed

lemma compute_object_histogram_no_intervals:
  "compute_object_histogram img bb channels msk num_bins []
   = compute_object_histogram img bb channels msk num_bins [0, 256, 0, 256, 0, 256]"
proof (cases "length num_bins < 3")
  case True
  then show ?thesis by (simp add: compute_object_histogram_def)
next
  case False
  then have l1: "length (take 1 (drop 2 num_bins)) = 1"
    and l2: "length (take 2 num_bins) = 2" by simp_all
  have t: "take 4 [0, 256, 0, 256, 0, 256 :: real] = [0, 256, 0, 256]" "take 4 ([] :: real list) = []"
    and d: "drop 4 [0, 256, 0, 256, 0, 256 :: real] = [0, 256]" "drop 4 ([] :: real list) = []"
    by simp_all
  show ?thesis
    unfolding compute_object_histogram_def t d cv2_calcHist_default_1 [OF l1]
      cv2_calcHist_default_2 [OF l2] ..
qed

lemma init_color_hist:
  "map_sum id self_color_hist (init hsv_img bb channels msk num_bins intervals)
   = compute_object_histogram hsv_img bb channels msk num_bins intervals"
  by (simp add: init_def split: sum.splits)

lemma strip_crop_channels:
  "length (cv2_split (np_slice2d strip (py_int (bb_top strip_bb)) (py_int (bb_bottom strip_bb))
           (py_int (bb_left strip_bb)) (py_int (bb_right strip_bb)))) = 3"
  by (simp add: split_channels np_slice2d_def py_slice_def py_int_def strip_def strip_bb_def)

lemma strip_empty_crop_channels:
  "length (cv2_split (np_slice2d strip (py_int (bb_top empty_bb)) (py_int (bb_bottom empty_bb))
           (py_int (bb_left empty_bb)) (py_int (bb_right empty_bb)))) \<noteq> 3"
  by (simp add: split_channels np_slice2d_def py_slice_def py_int_def strip_def empty_bb_def)

lemma strip_reference_default_ranges:
  "compute_object_histogram strip strip_bb hsv_channels None one_bin [0, 256, 0, 256, 0, 256]
   = Inr [Fin 0, Fin 1]"
  by (simp add: builder_eval strip_def strip_bb_def)

lemma strip_empty_reference:
  "compute_object_histogram strip empty_bb hsv_channels None one_bin
     [0, 180, 0, 256, 0, 256, 9] = Inr [Fin 0, Fin 0]"
  by (simp add: builder_eval strip_def empty_bb_def)

lemma one_bin_size: "3 \<le> length one_bin" "0 \<le> one_bin ! 0 * one_bin ! 1 + one_bin ! 2"
  "nat (one_bin ! 0 * one_bin ! 1 + one_bin ! 2) = 2"
  by (simp_all add: one_bin_def)

section \<open>The claims\<close>

text \<open>
  C1. The claim: the builder returns a vector of the configured length whose bins are
  non-negative and sum to 1, or the all-zero vector when no pixel is counted, and never
  produces \<^verbatim>\<open>nan\<close>. The code divides by the sum without a guard. On the one-pixel image
  \<open>gray_pixel\<close> with the value range \<open>[0, 128)\<close> the crop has three channels, the pixel
  is achromatic and its value 200 is outside the range, so no pixel is counted and the
  builder returns \<^verbatim>\<open>nan\<close> in every bin. (Lemma \<open>compute_object_histogram_cases\<close> is
  the part of the claim that holds: the length, and the three shapes a result can have.)
\<close>

theorem compute_object_histogram_zero_mass_nan:
  "compute_object_histogram gray_pixel unit_bb hsv_channels None one_bin dark_intervals
   = Inr [NaN, NaN]"
  by (simp add: builder_eval gray_pixel_def unit_bb_def)

text \<open>
  C2. The claim: when scoring with an externally supplied mask, the builder uses it in place
  of the derived achromatic mask. The docstring of the constructor calls the mask the area of
  the image that should be considered, and \<^verbatim>\<open>particle_weight\<close> passes its mask on to the
  builder; the builder never reads it (lemmas \<open>compute_object_histogram_mask\<close> and
  \<open>all_weights_mask\<close>). Over the whole of \<open>strip\<close>, with a mask that keeps the first pixel
  only, the code counts two chromatic and two achromatic pixels, where the builder of the
  claim counts two chromatic pixels and the one achromatic pixel under the mask.
\<close>

theorem external_mask_not_applied:
  "compute_object_histogram strip whole_strip_bb hsv_channels (Some first_pixel_mask) one_bin
     full_intervals = Inr [Fin (1 / 2), Fin (1 / 2)]
   \<and> compute_object_histogram_as_specified strip whole_strip_bb hsv_channels
       (Some first_pixel_mask) one_bin full_intervals = Inr [Fin (2 / 3), Fin (1 / 3)]
   \<and> compute_object_histogram strip whole_strip_bb hsv_channels (Some first_pixel_mask) one_bin
       full_intervals
     \<noteq> compute_object_histogram_as_specified strip whole_strip_bb hsv_channels
         (Some first_pixel_mask) one_bin full_intervals"
proof -
  have code: "compute_object_histogram strip whole_strip_bb hsv_channels (Some first_pixel_mask)
     one_bin full_intervals = Inr [Fin (1 / 2), Fin (1 / 2)]"
    by (simp add: builder_eval strip_def whole_strip_bb_def)
  have spec: "compute_object_histogram_as_specified strip whole_strip_bb hsv_channels
       (Some first_pixel_mask) one_bin full_intervals = Inr [Fin (2 / 3), Fin (1 / 3)]"
    by (simp add: compute_object_histogram_as_specified_def builder_eval strip_def
        whole_strip_bb_def first_pixel_mask_def)
  show ?thesis unfolding code spec by simp
qed

text \<open>
  C3. For every candidate whose histogram and reference histogram are numeric (finite,
  the reference non-negative with a positive sum, the same length), the scorer's distance is
  \<open>d = (1/\<surd>2) \<cdot> sqrt (\<Sum> (sqrt ref_bin - sqrt cand_bin)\<^sup>2)\<close> between the reference
  divided by its sum and the candidate divided by its sum (or by 1 when that sum is 0), and
  the weight of a particle inside the image is \<open>exp (- d\<^sup>2 / (2 \<cdot> 0.1\<^sup>2))\<close>; a distance of
  0 gives weight exactly 1.
\<close>

theorem particle_weight_bhattacharyya_kernel:
  assumes "fst (particle_weight self particles hsv_img msk) = Inr W"
    and "i < length particles"
    and "self_color_hist self = map Fin rs" and "\<forall>r \<in> set rs. 0 \<le> r" and "0 < sum_list rs"
    and "compute_object_histogram hsv_img
           (centered_on (self_bb self) (fst (particles ! i)) (snd (particles ! i)))
           (hist_channels (self_color_hist_params self)) msk
           (hist_num_bins (self_color_hist_params self))
           (hist_intervals (self_color_hist_params self)) = Inr (map Fin cs)"
    and "length rs = length cs"
  shows "(let d = bhattacharyya_distance (map (\<lambda>x. x / sum_list rs) rs)
                    (map (\<lambda>x. x / (if sum_list cs = 0 then 1 else sum_list cs)) cs)
          in particle_dist (length rs) (self_color_hist self) (map Fin cs) = Fin d
             \<and> W ! i = [Fin (if valid_mask hsv_img (particles ! i)
                              then exp (- d\<^sup>2 / (2 * (1 / 10)\<^sup>2)) else 0)]
             \<and> (d = 0 \<and> valid_mask hsv_img (particles ! i) \<longrightarrow> W ! i = [Fin 1]))"
proof -
  from assms(1) have W: "all_weights self particles hsv_img msk = Inr W"
    by (simp add: particle_weight_def)
  note facts = all_weights_Fin [OF W assms(2-7)]
  show ?thesis
    unfolding Let_def using facts by (simp add: gaussian_weight_def)
qed

theorem particle_weight_bhattacharyya_kernel_witness:
  "fst (particle_weight strip_classifier [(0, 1 / 2), (3, 1 / 2), (1, 1 / 2)] strip None)
     = Inr [[Fin (exp (- 25))], [Fin (exp (- 50))], [Fin 1]]
   \<and> particle_dist (length [0, 1 :: real]) [Fin 0, Fin 1] [Fin 1, Fin 0]
       = Fin (bhattacharyya_distance [0, 1] [1, 0])
   \<and> [Fin (exp (- 50))] = [Fin (exp (- (bhattacharyya_distance [0, 1] [1, 0])\<^sup>2 / (2 * (1 / 10)\<^sup>2)))]
   \<and> particle_dist (length [0, 1 :: real]) [Fin 0, Fin 1] [Fin 0, Fin 1]
       = Fin (bhattacharyya_distance [0, 1] [0, 1])
   \<and> bhattacharyya_distance [0, 1] [0, 1] = 0"
proof -
  let ?ps = "[(0, 1 / 2), (3, 1 / 2), (1, 1 / 2)] :: (real \<times> real) list"
  let ?W = "[[Fin (exp (- 25))], [Fin (exp (- 50))], [Fin 1]]"
  have W: "fst (particle_weight strip_classifier ?ps strip None) = Inr ?W"
    by (simp add: particle_weight_def strip_all_weights)
  have ref: "self_color_hist strip_classifier = map Fin [0, 1]" "\<forall>r \<in> set [0, 1 :: real]. 0 \<le> r"
    "0 < sum_list [0, 1 :: real]"
    by (simp_all add: strip_classifier_fields)
  have c1: "compute_object_histogram strip
           (centered_on (self_bb strip_classifier) (fst (?ps ! 1)) (snd (?ps ! 1)))
           (hist_channels (self_color_hist_params strip_classifier)) None
           (hist_num_bins (self_color_hist_params strip_classifier))
           (hist_intervals (self_color_hist_params strip_classifier)) = Inr (map Fin [1, 0])"
    by (simp add: strip_classifier_fields strip_right_particle)
  have c2: "compute_object_histogram strip
           (centered_on (self_bb strip_classifier) (fst (?ps ! 2)) (snd (?ps ! 2)))
           (hist_channels (self_color_hist_params strip_classifier)) None
           (hist_num_bins (self_color_hist_params strip_classifier))
           (hist_intervals (self_color_hist_params strip_classifier)) = Inr (map Fin [0, 1])"
    by (simp add: strip_classifier_fields strip_same_particle)
  have i1: "1 < length ?ps" and i2: "2 < length ?ps" by simp_all
  have len: "length [0, 1 :: real] = length [1, 0 :: real]"
    "length [0, 1 :: real] = length [0, 1 :: real]" by simp_all
  have d0: "bhattacharyya_distance [0, 1] [0, 1] = 0"
    by (simp add: bhattacharyya_distance_def)
  show ?thesis
    using particle_weight_bhattacharyya_kernel [OF W i1 ref c1 len(1)]
      particle_weight_bhattacharyya_kernel [OF W i2 ref c2 len(2)] W d0
    by (simp add: Let_def strip_valid strip_classifier_fields)
qed

text \<open>
  C4. The claim: a particle whose centre lies outside the image receives weight exactly 0,
  whatever its histogram. The code multiplies the weight by the validity mask, and
  \<^verbatim>\<open>nan * 0\<close> is \<^verbatim>\<open>nan\<close>. In \<open>two_gray\<close>, with the value range \<open>[0, 128)\<close>, the
  reference region is the first pixel and the reference histogram is \<open>[0, 1]\<close>. The particle
  at \<open>(2, 1/2)\<close> is outside the image (its \<open>x\<close> is the width); its region is the second
  pixel, in which no pixel is counted, and its weight is \<^verbatim>\<open>nan\<close>, not 0.
\<close>

theorem out_of_bounds_particle_nan_weight:
  "init two_gray unit_bb hsv_channels None one_bin dark_intervals = Inr two_gray_classifier
   \<and> \<not> valid_mask two_gray (2, 1 / 2)
   \<and> compute_object_histogram two_gray (centered_on unit_bb 2 (1 / 2)) hsv_channels None
       one_bin dark_intervals = Inr [NaN, NaN]
   \<and> fst (particle_weight two_gray_classifier [(2, 1 / 2)] two_gray None) = Inr [[NaN]]"
proof -
  have "fst (particle_weight two_gray_classifier [(2, 1 / 2)] two_gray None) = Inr [[NaN]]"
    unfolding particle_weight_def fst_conv by (rule two_gray_outside_all_weights)
  then show ?thesis
    using two_gray_reference two_gray_outside_invalid two_gray_outside_particle by blast
qed

text \<open>
  C5. The claim: a candidate histogram whose sum is zero yields the maximal distance and the
  minimal weight. In \<open>strip\<close> the reference region is the two gray pixels. The particle at
  \<open>(0, 1/2)\<close> is inside the image and its region \<^verbatim>\<open>[-1:1]\<close> is empty, so its histogram
  is all zero: distance \<open>1/\<surd>2\<close>, weight \<open>exp (-25)\<close>. The particle at \<open>(3, 1/2)\<close> sees
  the two saturated pixels: distance 1, weight \<open>exp (-50)\<close>. The zero-sum candidate has
  neither the largest distance nor the smallest weight.
\<close>

theorem zero_sum_candidate_not_minimal:
  "compute_object_histogram strip (centered_on strip_bb 0 (1 / 2)) hsv_channels None one_bin
     full_intervals = Inr [Fin 0, Fin 0]
   \<and> compute_object_histogram strip (centered_on strip_bb 3 (1 / 2)) hsv_channels None one_bin
       full_intervals = Inr [Fin 1, Fin 0]
   \<and> particle_dist 2 (self_color_hist strip_classifier) [Fin 0, Fin 0] = Fin (1 / sqrt 2)
   \<and> particle_dist 2 (self_color_hist strip_classifier) [Fin 1, Fin 0] = Fin 1
   \<and> 1 / sqrt 2 < (1 :: real)
   \<and> fst (particle_weight strip_classifier [(0, 1 / 2), (3, 1 / 2)] strip None)
       = Inr [[Fin (exp (- 25))], [Fin (exp (- 50))]]
   \<and> exp (- 50) < (exp (- 25) :: real)"
proof -
  have hs: "particle_hists strip_classifier strip None [(0, 1 / 2), (3, 1 / 2)]
            = Inr [[Fin 0, Fin 0], [Fin 1, Fin 0]]"
    by (simp add: strip_classifier_fields strip_left_particle strip_right_particle)
  have "all_weights strip_classifier [(0, 1 / 2), (3, 1 / 2)] strip None
        = Inr [[Fin (exp (- 25))], [Fin (exp (- 50))]]"
    by (simp add: all_weights_def Let_def hs strip_classifier_fields one_bin_def
        np_broadcast_shape_def dist_zero_candidate dist_disjoint_candidate
        kernel_weight_values strip_valid del: particle_hists.simps)
  moreover have "1 / sqrt 2 < (1 :: real)"
    by (simp add: real_less_lsqrt)
  moreover have "particle_dist 2 (self_color_hist strip_classifier) [Fin 0, Fin 0]
                 = Fin (1 / sqrt 2)"
    "particle_dist 2 (self_color_hist strip_classifier) [Fin 1, Fin 0] = Fin 1"
    using dist_zero_candidate dist_disjoint_candidate
    by (simp_all add: strip_classifier_fields numeral_2_eq_2)
  ultimately show ?thesis
    by (simp add: particle_weight_def strip_left_particle strip_right_particle)
qed

text \<open>
  C5, as amended. A candidate histogram whose sum is exactly zero is all zero and stays so
  after the division by the substituted sum 1; against a reference histogram that is finite
  and non-negative, of the configured length and with a positive sum, its distance is
  exactly \<open>1/\<surd>2\<close> and its weight \<open>exp (-25)\<close>, or 0 when the particle's centre is outside
  the image.
\<close>

theorem zero_sum_candidate_weight:
  assumes "fst (particle_weight self particles hsv_img msk) = Inr W"
    and "i < length particles"
    and "self_color_hist self = map Fin rs" and "\<forall>r \<in> set rs. 0 \<le> r" and "0 < sum_list rs"
    and "length rs = nat (hist_num_bins (self_color_hist_params self) ! 0
                          * hist_num_bins (self_color_hist_params self) ! 1
                          + hist_num_bins (self_color_hist_params self) ! 2)"
    and "compute_object_histogram hsv_img
           (centered_on (self_bb self) (fst (particles ! i)) (snd (particles ! i)))
           (hist_channels (self_color_hist_params self)) msk
           (hist_num_bins (self_color_hist_params self))
           (hist_intervals (self_color_hist_params self)) = Inr h"
    and "fl_sum h = Fin 0"
  shows "h = replicate (length rs) (Fin 0)
       \<and> map (\<lambda>x. fl_div x (Fin 1)) h = h
       \<and> particle_dist (length rs) (self_color_hist self) h = Fin (1 / sqrt 2)
       \<and> W ! i = [Fin (if valid_mask hsv_img (particles ! i) then exp (- 25) else 0)]"
proof -
  from assms(1) have W: "all_weights self particles hsv_img msk = Inr W"
    by (simp add: particle_weight_def)
  have "fl_histogram (length rs) h"
    unfolding assms(6) using assms(7) by (rule compute_object_histogram_cases)
  then have h: "h = replicate (length rs) (Fin 0)"
    using assms(8) by (rule fl_histogram_zero_sum)
  then have hF: "h = map Fin (replicate (length rs) 0)" by simp
  have len: "length rs = length (replicate (length rs) (0::real))" by simp
  note facts = all_weights_Fin [OF W assms(2-5) assms(7) [unfolded hF] len]
  have d: "bhattacharyya_distance (map (\<lambda>x. x / sum_list rs) rs)
             (map (\<lambda>x. x / (if sum_list (replicate (length rs) (0::real)) = 0 then 1
                             else sum_list (replicate (length rs) 0)))
                (replicate (length rs) 0)) = 1 / sqrt 2"
    using bhattacharyya_distance_zero_candidate [OF assms(4,5)] by simp
  have "particle_dist (length rs) (self_color_hist self) h = Fin (1 / sqrt 2)"
    using facts(1) unfolding d hF .
  moreover have "W ! i = [Fin (if valid_mask hsv_img (particles ! i) then exp (- 25) else 0)]"
    using facts(2) unfolding d gaussian_weight_inv_sqrt2 .
  moreover have "map (\<lambda>x. fl_div x (Fin 1)) h = h"
    unfolding h by simp
  ultimately show ?thesis using h by blast
qed

theorem zero_sum_candidate_weight_witness:
  "[Fin 0, Fin 0] = replicate (length [0, 1 :: real]) (Fin 0)
   \<and> particle_dist (length [0, 1 :: real]) (self_color_hist strip_classifier) [Fin 0, Fin 0]
       = Fin (1 / sqrt 2)
   \<and> [[Fin (exp (- 25))], [Fin (exp (- 50))], [Fin 1]] ! 0
       = [Fin (if valid_mask strip ([(0, 1 / 2), (3, 1 / 2), (1, 1 / 2)] ! 0)
               then exp (- 25) else 0)]"
proof -
  let ?ps = "[(0, 1 / 2), (3, 1 / 2), (1, 1 / 2)] :: (real \<times> real) list"
  let ?W = "[[Fin (exp (- 25))], [Fin (exp (- 50))], [Fin 1]]"
  have W: "fst (particle_weight strip_classifier ?ps strip None) = Inr ?W"
    by (simp add: particle_weight_def strip_all_weights)
  have ref: "self_color_hist strip_classifier = map Fin [0, 1]" "\<forall>r \<in> set [0, 1 :: real]. 0 \<le> r"
    "0 < sum_list [0, 1 :: real]"
    by (simp_all add: strip_classifier_fields)
  have L: "length [0, 1 :: real] = nat (hist_num_bins (self_color_hist_params strip_classifier) ! 0
                          * hist_num_bins (self_color_hist_params strip_classifier) ! 1
                          + hist_num_bins (self_color_hist_params strip_classifier) ! 2)"
    by (simp add: strip_classifier_fields one_bin_def)
  have c0: "compute_object_histogram strip
           (centered_on (self_bb strip_classifier) (fst (?ps ! 0)) (snd (?ps ! 0)))
           (hist_channels (self_color_hist_params strip_classifier)) None
           (hist_num_bins (self_color_hist_params strip_classifier))
           (hist_intervals (self_color_hist_params strip_classifier)) = Inr [Fin 0, Fin 0]"
    by (simp add: strip_classifier_fields strip_left_particle)
  have i0: "0 < length ?ps" by simp
  have s: "fl_sum [Fin 0, Fin 0] = Fin 0" by simp
  show ?thesis
    using zero_sum_candidate_weight [OF W i0 ref L c0 s] by blast
qed

text \<open>
  C6. The claim: the scorer returns one weight per particle, in order, as a column, each in
  \<open>[0, 1]\<close>. Count, order and shape hold (lemmas \<open>particle_weight_column\<close> and
  \<open>all_weights_nth\<close>); the bound does not. In \<open>two_gray\<close> the reference region is the
  first pixel, and the particle centred on the second pixel, inside the image, sees a region
  in which no pixel is counted: its weight is \<^verbatim>\<open>nan\<close>.
\<close>

theorem in_bounds_particle_nan_weight:
  "init two_gray unit_bb hsv_channels None one_bin dark_intervals = Inr two_gray_classifier
   \<and> valid_mask two_gray (3 / 2, 1 / 2)
   \<and> fst (particle_weight two_gray_classifier [(3 / 2, 1 / 2)] two_gray None) = Inr [[NaN]]"
proof -
  have "valid_mask two_gray (3 / 2, 1 / 2)"
    by (simp add: valid_mask_def two_gray_def)
  moreover have "fst (particle_weight two_gray_classifier [(3 / 2, 1 / 2)] two_gray None)
                 = Inr [[NaN]]"
    unfolding particle_weight_def fst_conv by (rule two_gray_all_weights)
  ultimately show ?thesis
    using two_gray_reference by blast
qed

text \<open>
  C7. On numeric histograms of the same length, \<open>update_object_histogram\<close> replaces the
  reference histogram by \<open>(1 - update_factor) \<cdot> old + update_factor \<cdot> new\<close>, bin by bin and
  with no renormalisation; a factor of 0 leaves the classifier unchanged and a factor of 1
  makes the reference histogram exactly the new one.
\<close>

theorem update_object_histogram_blend:
  assumes "self_color_hist self = map Fin old" and "length new = length old"
  shows "update_object_histogram self (map Fin new) update_factor
         = (Inr (), self\<lparr>self_color_hist :=
                           map Fin (map2 (\<lambda>p q. (1 - update_factor) * p + update_factor * q)
                                      old new)\<rparr>)
       \<and> snd (update_object_histogram self (map Fin new) 0) = self
       \<and> self_color_hist (snd (update_object_histogram self (map Fin new) 1)) = map Fin new"
proof -
  have blend: "\<And>f. update_object_histogram self (map Fin new) f
         = (Inr (), self\<lparr>self_color_hist :=
                           map Fin (map2 (\<lambda>p q. (1 - f) * p + f * q) old new)\<rparr>)"
    using assms update_blend_Fin [OF assms(2)]
    by (simp add: update_object_histogram_def np_broadcast_shape_def)
  have "snd (update_object_histogram self (map Fin new) 0) = self"
    unfolding blend using assms by (simp add: map2_fst)
  moreover have "self_color_hist (snd (update_object_histogram self (map Fin new) 1))
                 = map Fin new"
    unfolding blend using assms by (simp add: map2_snd)
  ultimately show ?thesis using blend by blast
qed

theorem update_object_histogram_blend_witness:
  "update_object_histogram strip_classifier [Fin 2, Fin 0] (1 / 4)
     = (Inr (), strip_classifier\<lparr>self_color_hist := [Fin (1 / 2), Fin (3 / 4)]\<rparr>)
   \<and> snd (update_object_histogram strip_classifier [Fin 2, Fin 0] 0) = strip_classifier
   \<and> self_color_hist (snd (update_object_histogram strip_classifier [Fin 2, Fin 0] 1))
     = [Fin 2, Fin 0]"
proof -
  have old: "self_color_hist strip_classifier = map Fin [0, 1]"
    by (simp add: strip_classifier_fields)
  have len: "length [2, 0 :: real] = length [0, 1 :: real]" by simp
  show ?thesis
    using update_object_histogram_blend [OF old len, of "1 / 4"] by simp
qed

text \<open>
  C8. Every scoring call, \<open>particle_weight\<close> and \<open>score_object\<close>, returns the classifier
  it was given: reference histogram, stored region and histogram parameters are unchanged.
  The model updater changes nothing but the reference histogram.
\<close>

theorem scoring_leaves_classifier_unchanged:
  "snd (particle_weight self particles hsv_img msk) = self
   \<and> snd (score_object self hsv_img b msk) = self
   \<and> self_bb (snd (update_object_histogram self new_histogram update_factor)) = self_bb self
   \<and> self_obj_img (snd (update_object_histogram self new_histogram update_factor))
       = self_obj_img self
   \<and> self_color_hist_params (snd (update_object_histogram self new_histogram update_factor))
       = self_color_hist_params self"
  by (simp add: particle_weight_def score_object_def update_object_histogram_def
      split: sum.splits)

text \<open>
  C9. The claim: a bin-count or interval list of the wrong length makes the constructor fail
  with a validation failure. The constructor validates nothing. On \<open>strip\<close> it builds a
  classifier from four bin counts, from an interval list of four entries and from an empty
  interval list; on an empty region it builds one from an interval list of seven entries.
\<close>

theorem init_accepts_malformed_shapes:
  "map_sum id self_color_hist (init strip strip_bb hsv_channels None [1, 1, 1, 7] full_intervals)
     = Inr [Fin 0, Fin 1]
   \<and> length [1, 1, 1, 7 :: int] \<noteq> 3
   \<and> map_sum id self_color_hist (init strip strip_bb hsv_channels None one_bin [0, 180, 0, 256])
     = Inr [Fin 0, Fin 1]
   \<and> length [0, 180, 0, 256 :: real] \<noteq> 6
   \<and> map_sum id self_color_hist (init strip strip_bb hsv_channels None one_bin [])
     = Inr [Fin 0, Fin 1]
   \<and> map_sum id self_color_hist
       (init strip empty_bb hsv_channels None one_bin [0, 180, 0, 256, 0, 256, 9])
     = Inr [Fin 0, Fin 0]
   \<and> length [0, 180, 0, 256, 0, 256, 9 :: real] \<noteq> 6"
proof -
  have bins: "compute_object_histogram strip strip_bb hsv_channels None ([1, 1, 1] @ [7])
          full_intervals = Inr [Fin 0, Fin 1]"
    using compute_object_histogram_extra_bins [of "[1, 1, 1]" strip strip_bb hsv_channels None
        "[7]" full_intervals] strip_reference
    by (simp add: one_bin_def)
  have four: "compute_object_histogram strip strip_bb hsv_channels None one_bin [0, 180, 0, 256]
              = Inr [Fin 0, Fin 1]"
    using compute_object_histogram_four_intervals [of "[0, 180, 0, 256]" strip strip_bb
        hsv_channels None one_bin] strip_reference
    by (simp add: full_intervals_def)
  have none: "compute_object_histogram strip strip_bb hsv_channels None one_bin []
              = Inr [Fin 0, Fin 1]"
    unfolding compute_object_histogram_no_intervals by (rule strip_reference_default_ranges)
  show ?thesis
    using bins four none strip_empty_reference by (simp add: init_color_hist)
qed

text \<open>
  C9, as amended. The constructor performs no shape validation of its own; what happens to a
  malformed list is what the histogram builder does with it. A bin-count list with fewer than
  three entries fails with the \<^verbatim>\<open>IndexError\<close> of the builder's first statement, and entries
  after the third are ignored. When the crop of the initial region does not split into three
  channels (an empty region, for one), every interval list is accepted and the reference
  histogram is all zero. When it does, an interval list whose length is not 0, 4 or 6 fails
  with the OpenCV error of \<^verbatim>\<open>cv2.calcHist\<close>; a list of four entries is accepted, with the
  achromatic range \<open>[0, 256)\<close>, and the empty list is accepted, with every range
  \<open>[0, 256)\<close>.
\<close>

theorem init_performs_no_shape_validation:
  "(length num_bins < 3 \<longrightarrow>
      init hsv_img bb channels msk num_bins intervals = Inl IndexError)
   \<and> (3 \<le> length num_bins \<longrightarrow>
      map_sum id self_color_hist (init hsv_img bb channels msk (num_bins @ extra) intervals)
      = map_sum id self_color_hist (init hsv_img bb channels msk num_bins intervals))
   \<and> (3 \<le> length num_bins \<and> 0 \<le> num_bins ! 0 * num_bins ! 1 + num_bins ! 2
       \<and> length (cv2_split (np_slice2d hsv_img (py_int (bb_top bb)) (py_int (bb_bottom bb))
                    (py_int (bb_left bb)) (py_int (bb_right bb)))) \<noteq> 3 \<longrightarrow>
      map_sum id self_color_hist (init hsv_img bb channels msk num_bins intervals)
      = Inr (replicate (nat (num_bins ! 0 * num_bins ! 1 + num_bins ! 2)) (Fin 0)))
   \<and> (3 \<le> length num_bins \<and> 0 \<le> num_bins ! 0 * num_bins ! 1 + num_bins ! 2
       \<and> length (cv2_split (np_slice2d hsv_img (py_int (bb_top bb)) (py_int (bb_bottom bb))
                    (py_int (bb_left bb)) (py_int (bb_right bb)))) = 3
       \<and> length intervals \<noteq> 0 \<and> length intervals \<noteq> 4 \<and> length intervals \<noteq> 6 \<longrightarrow>
      init hsv_img bb channels msk num_bins intervals = Inl CvError)
   \<and> (length intervals = 4 \<longrightarrow>
      map_sum id self_color_hist (init hsv_img bb channels msk num_bins intervals)
      = map_sum id self_color_hist
          (init hsv_img bb channels msk num_bins (intervals @ [0, 256])))
   \<and> map_sum id self_color_hist (init hsv_img bb channels msk num_bins [])
     = map_sum id self_color_hist
         (init hsv_img bb channels msk num_bins [0, 256, 0, 256, 0, 256])"
proof (intro conjI impI)
  assume "length num_bins < 3"
  then show "init hsv_img bb channels msk num_bins intervals = Inl IndexError"
    by (simp add: init_def compute_object_histogram_def)
next
  assume "3 \<le> length num_bins"
  then show "map_sum id self_color_hist
               (init hsv_img bb channels msk (num_bins @ extra) intervals)
             = map_sum id self_color_hist (init hsv_img bb channels msk num_bins intervals)"
    unfolding init_color_hist by (rule compute_object_histogram_extra_bins)
next
  assume "3 \<le> length num_bins \<and> 0 \<le> num_bins ! 0 * num_bins ! 1 + num_bins ! 2
       \<and> length (cv2_split (np_slice2d hsv_img (py_int (bb_top bb)) (py_int (bb_bottom bb))
                    (py_int (bb_left bb)) (py_int (bb_right bb)))) \<noteq> 3"
  then show "map_sum id self_color_hist (init hsv_img bb channels msk num_bins intervals)
      = Inr (replicate (nat (num_bins ! 0 * num_bins ! 1 + num_bins ! 2)) (Fin 0))"
    unfolding init_color_hist by (simp add: compute_object_histogram_def Let_def)
next
  assume "3 \<le> length num_bins \<and> 0 \<le> num_bins ! 0 * num_bins ! 1 + num_bins ! 2
       \<and> length (cv2_split (np_slice2d hsv_img (py_int (bb_top bb)) (py_int (bb_bottom bb))
                    (py_int (bb_left bb)) (py_int (bb_right bb)))) = 3
       \<and> length intervals \<noteq> 0 \<and> length intervals \<noteq> 4 \<and> length intervals \<noteq> 6"
  then have "compute_object_histogram hsv_img bb channels msk num_bins intervals = Inl CvError"
    by (intro compute_object_histogram_bad_intervals) simp_all
  then show "init hsv_img bb channels msk num_bins intervals = Inl CvError"
    by (simp add: init_def)
next
  assume "length intervals = 4"
  then show "map_sum id self_color_hist (init hsv_img bb channels msk num_bins intervals)
      = map_sum id self_color_hist
          (init hsv_img bb channels msk num_bins (intervals @ [0, 256]))"
    unfolding init_color_hist by (rule compute_object_histogram_four_intervals)
next
  show "map_sum id self_color_hist (init hsv_img bb channels msk num_bins [])
     = map_sum id self_color_hist
         (init hsv_img bb channels msk num_bins [0, 256, 0, 256, 0, 256])"
    unfolding init_color_hist by (rule compute_object_histogram_no_intervals)
qed

theorem init_performs_no_shape_validation_witness:
  "init strip strip_bb hsv_channels None [1, 1] full_intervals = Inl IndexError
   \<and> map_sum id self_color_hist
       (init strip strip_bb hsv_channels None ([1, 1, 1] @ [7]) full_intervals)
     = map_sum id self_color_hist
         (init strip strip_bb hsv_channels None [1, 1, 1] full_intervals)
   \<and> map_sum id self_color_hist
       (init strip empty_bb hsv_channels None one_bin [0, 180, 0, 256, 0, 256, 9])
     = Inr (replicate 2 (Fin 0))
   \<and> init strip strip_bb hsv_channels None one_bin [0, 180, 0, 256, 0] = Inl CvError
   \<and> map_sum id self_color_hist (init strip strip_bb hsv_channels None one_bin [0, 180, 0, 256])
     = map_sum id self_color_hist
         (init strip strip_bb hsv_channels None one_bin ([0, 180, 0, 256] @ [0, 256]))
   \<and> map_sum id self_color_hist (init strip strip_bb hsv_channels None one_bin [])
     = map_sum id self_color_hist
         (init strip strip_bb hsv_channels None one_bin [0, 256, 0, 256, 0, 256])"
proof -
  note inst = init_performs_no_shape_validation [where hsv_img = strip
      and channels = hsv_channels and msk = None]
  have a: "init strip strip_bb hsv_channels None [1, 1] full_intervals = Inl IndexError"
    using inst [where num_bins = "[1, 1]" and bb = strip_bb and intervals = full_intervals]
    by simp
  have b: "map_sum id self_color_hist
       (init strip strip_bb hsv_channels None ([1, 1, 1] @ [7]) full_intervals)
     = map_sum id self_color_hist
         (init strip strip_bb hsv_channels None [1, 1, 1] full_intervals)"
    using inst [where num_bins = "[1, 1, 1]" and bb = strip_bb and intervals = full_intervals
        and extra = "[7]"]
    by simp
  have c: "map_sum id self_color_hist
       (init strip empty_bb hsv_channels None one_bin [0, 180, 0, 256, 0, 256, 9])
     = Inr (replicate 2 (Fin 0))"
    using inst [where num_bins = one_bin and bb = empty_bb
        and intervals = "[0, 180, 0, 256, 0, 256, 9]"]
      one_bin_size strip_empty_crop_channels
    by simp
  have d: "init strip strip_bb hsv_channels None one_bin [0, 180, 0, 256, 0] = Inl CvError"
    using inst [where num_bins = one_bin and bb = strip_bb
        and intervals = "[0, 180, 0, 256, 0]"]
      one_bin_size strip_crop_channels
    by simp
  have e: "map_sum id self_color_hist
       (init strip strip_bb hsv_channels None one_bin [0, 180, 0, 256])
     = map_sum id self_color_hist
         (init strip strip_bb hsv_channels None one_bin ([0, 180, 0, 256] @ [0, 256]))"
    using inst [where num_bins = one_bin and bb = strip_bb and intervals = "[0, 180, 0, 256]"]
    by simp
  have f: "map_sum id self_color_hist (init strip strip_bb hsv_channels None one_bin [])
     = map_sum id self_color_hist
         (init strip strip_bb hsv_channels None one_bin [0, 256, 0, 256, 0, 256])"
    using inst [where num_bins = one_bin and bb = strip_bb] by simp
  from a b c d e f show ?thesis by blast
qed

text \<open>
  C10. When the cropped region does not split into exactly three channels, the builder
  computes no histogram and returns the all-zero vector of length
  \<open>num_bins[0] * num_bins[1] + num_bins[2]\<close>, provided that length exists: the list of bin
  counts has its three entries and the length is not negative.
\<close>

theorem compute_object_histogram_not_three_channels:
  assumes "3 \<le> length num_bins"
    and "0 \<le> num_bins ! 0 * num_bins ! 1 + num_bins ! 2"
    and "length (cv2_split (np_slice2d img (py_int (bb_top objectBB))
           (py_int (bb_bottom objectBB)) (py_int (bb_left objectBB))
           (py_int (bb_right objectBB)))) \<noteq> 3"
  shows "compute_object_histogram img objectBB channels msk num_bins intervals
         = Inr (replicate (nat (num_bins ! 0 * num_bins ! 1 + num_bins ! 2)) (Fin 0))"
  using assms by (simp add: compute_object_histogram_def Let_def)

theorem compute_object_histogram_not_three_channels_witness:
  "compute_object_histogram gray_plane unit_bb hsv_channels None [2, 3, 4] full_intervals
   = Inr (replicate 10 (Fin 0))
   \<and> compute_object_histogram four_channels unit_bb hsv_channels None [2, 3, 4] full_intervals
   = Inr (replicate 10 (Fin 0))"
proof -
  have len: "3 \<le> length [2, 3, 4 :: int]" by simp
  have size: "0 \<le> [2, 3, 4 :: int] ! 0 * [2, 3, 4] ! 1 + [2, 3, 4] ! 2" by simp
  have one: "length (cv2_split (np_slice2d gray_plane (py_int (bb_top unit_bb))
           (py_int (bb_bottom unit_bb)) (py_int (bb_left unit_bb))
           (py_int (bb_right unit_bb)))) \<noteq> 3"
    by (simp add: split_channels np_slice2d_def py_slice_def py_int_def unit_bb_def
        gray_plane_def)
  have four: "length (cv2_split (np_slice2d four_channels (py_int (bb_top unit_bb))
           (py_int (bb_bottom unit_bb)) (py_int (bb_left unit_bb))
           (py_int (bb_right unit_bb)))) \<noteq> 3"
    by (simp add: split_channels np_slice2d_def py_slice_def py_int_def unit_bb_def
        four_channels_def)
  show ?thesis
    using compute_object_histogram_not_three_channels [OF len size one,
        of hsv_channels None full_intervals]
      compute_object_histogram_not_three_channels [OF len size four,
        of hsv_channels None full_intervals]
    by simp
qed

end
